theory Spec2Isabelle
  imports Main "HOL-Library.Word" "HOL-Library.Char_ord" "HOL-Library.List_Lexorder"
begin

unbundle bit_operations_syntax

section \<open>City services API: a shallow embedding of \<^verbatim>\<open>app.py\<close>\<close>

text \<open>
  The program keeps two module-level variables: \<^verbatim>\<open>services\<close>, a dict from identifier to
  record (itself a dict), and \<^verbatim>\<open>ws_clients\<close>, a set of WebSocket connections. Each Flask
  handler is modelled as a function from the state before the request to the outcome and
  the state after it. What a handler reads from outside (the random bytes behind
  \<^verbatim>\<open>uuid.uuid4()\<close>, the clock behind \<^verbatim>\<open>now_iso()\<close>, whether \<^verbatim>\<open>ws.send\<close> raises) is an
  argument of the function.
\<close>

subsection \<open>JSON values and Python dicts\<close>

text \<open>
  \<^verbatim>\<open>request.get_json\<close> yields Python values built from JSON: \<^verbatim>\<open>None\<close>, booleans, numbers,
  strings, lists and dicts with string keys. A dict is an association list in insertion
  order, its keys distinct. Strings are lists of code points below 256. \<open>JNum\<close> holds
  the integer literals; a literal with a fraction or an exponent becomes a Python float
  and is not represented.
\<close>

datatype json =
    JNull
  | JBool bool
  | JNum int
  | JStr string
  | JArr "json list"
  | JObj "(string \<times> json) list"

type_synonym pydict = "(string \<times> json) list"

text \<open>Python truth value, as tested by \<^verbatim>\<open>not x\<close>, \<^verbatim>\<open>x or y\<close> and \<^verbatim>\<open>if x\<close>.\<close>

fun truthy :: "json \<Rightarrow> bool" where
  "truthy JNull = False"
| "truthy (JBool b) = b"
| "truthy (JNum n) = (n \<noteq> 0)"
| "truthy (JStr s) = (s \<noteq> [])"
| "truthy (JArr xs) = (xs \<noteq> [])"
| "truthy (JObj kvs) = (kvs \<noteq> [])"

text \<open>\<^verbatim>\<open>d.get(k)\<close>: the value stored under \<open>k\<close>, or \<^verbatim>\<open>None\<close>.\<close>

fun dict_get :: "(string \<times> 'v) list \<Rightarrow> string \<Rightarrow> 'v option" where
  "dict_get [] k = None"
| "dict_get ((k', v) # kvs) k = (if k' = k then Some v else dict_get kvs k)"

text \<open>\<^verbatim>\<open>d.get(k, default)\<close>.\<close>

definition dict_get_default :: "(string \<times> 'v) list \<Rightarrow> string \<Rightarrow> 'v \<Rightarrow> 'v" where
  "dict_get_default d k dflt = (case dict_get d k of None \<Rightarrow> dflt | Some v \<Rightarrow> v)"

text \<open>
  \<^verbatim>\<open>d[k] = v\<close>: an existing key keeps its position and takes the new value, a new key is
  appended.
\<close>

fun dict_set :: "(string \<times> 'v) list \<Rightarrow> string \<Rightarrow> 'v \<Rightarrow> (string \<times> 'v) list" where
  "dict_set [] k v = [(k, v)]"
| "dict_set ((k', v') # kvs) k v =
     (if k' = k then (k, v) # kvs else (k', v') # dict_set kvs k v)"

text \<open>\<^verbatim>\<open>del d[k]\<close> for a key that is present; \<^verbatim>\<open>k in d\<close>; \<^verbatim>\<open>d.values()\<close>.\<close>

definition dict_del :: "(string \<times> 'v) list \<Rightarrow> string \<Rightarrow> (string \<times> 'v) list" where
  "dict_del d k = filter (\<lambda>kv. fst kv \<noteq> k) d"

definition dict_has :: "(string \<times> 'v) list \<Rightarrow> string \<Rightarrow> bool" where
  "dict_has d k = (dict_get d k \<noteq> None)"

definition dict_values :: "(string \<times> 'v) list \<Rightarrow> 'v list" where
  "dict_values d = map snd d"

subsection \<open>\<^verbatim>\<open>json.dumps\<close>\<close>

text \<open>
  \<^verbatim>\<open>json.dumps\<close> with its default \<^verbatim>\<open>ensure_ascii=True\<close>. A string is quoted; the quote and
  the backslash are escaped, the five short escapes are used, and every other character
  outside the range from space to tilde is written as \<^verbatim>\<open>\u\<close> and four lowercase
  hexadecimal digits.
\<close>

definition hex_digit :: "nat \<Rightarrow> char" where
  "hex_digit n = ''0123456789abcdef'' ! (n mod 16)"

definition escape_char :: "char \<Rightarrow> string" where
  "escape_char c =
     (let n = (of_char c :: nat) in
      if n = 0x22 then [CHR 0x5C, CHR 0x22]
      else if n = 0x5C then [CHR 0x5C, CHR 0x5C]
      else if n = 0x08 then [CHR 0x5C, CHR ''b'']
      else if n = 0x0C then [CHR 0x5C, CHR ''f'']
      else if n = 0x0A then [CHR 0x5C, CHR ''n'']
      else if n = 0x0D then [CHR 0x5C, CHR ''r'']
      else if n = 0x09 then [CHR 0x5C, CHR ''t'']
      else if 0x20 \<le> n \<and> n \<le> 0x7E then [c]
      else [CHR 0x5C, CHR ''u'', CHR ''0'', CHR ''0'', hex_digit (n div 16), hex_digit n])"

definition encode_str :: "string \<Rightarrow> string" where
  "encode_str s = [CHR 0x22] @ concat (map escape_char s) @ [CHR 0x22]"

text \<open>\<^verbatim>\<open>sep.join(parts)\<close>.\<close>

fun join :: "string \<Rightarrow> string list \<Rightarrow> string" where
  "join sep [] = []"
| "join sep [p] = p"
| "join sep (p # q # ps) = p @ sep @ join sep (q # ps)"

text \<open>The decimal text of an integer, as \<^verbatim>\<open>int.__repr__\<close> gives it.\<close>

fun show_nat :: "nat \<Rightarrow> string" where
  "show_nat n =
     (if n < 10 then [hex_digit n] else show_nat (n div 10) @ [hex_digit (n mod 10)])"

definition show_int :: "int \<Rightarrow> string" where
  "show_int i = (if i < 0 then CHR ''-'' # show_nat (nat (- i)) else show_nat (nat i))"

text \<open>
  \<open>dumps sort_keys item_sep key_sep v\<close> is
  \<^verbatim>\<open>json.dumps(v, sort_keys=sort_keys, separators=(item_sep, key_sep))\<close>. With
  \<^verbatim>\<open>sort_keys\<close> the items of every dict, nested ones too, are written in the order of
  their keys (code point order; the keys of a dict are distinct, so the values are never
  compared).
\<close>

fun dumps :: "bool \<Rightarrow> string \<Rightarrow> string \<Rightarrow> json \<Rightarrow> string" where
  "dumps sk isep ksep JNull = ''null''"
| "dumps sk isep ksep (JBool b) = (if b then ''true'' else ''false'')"
| "dumps sk isep ksep (JNum n) = show_int n"
| "dumps sk isep ksep (JStr s) = encode_str s"
| "dumps sk isep ksep (JArr xs) =
     ''['' @ join isep (map (dumps sk isep ksep) xs) @ '']''"
| "dumps sk isep ksep (JObj kvs) =
     (let items = map (\<lambda>kv. (fst kv, dumps sk isep ksep (snd kv))) kvs;
          items' = (if sk then sort_key fst items else items)
      in ''{'' @ join isep (map (\<lambda>kr. encode_str (fst kr) @ ksep @ snd kr) items') @ ''}'')"

subsection \<open>\<^verbatim>\<open>hashlib.md5\<close>\<close>

text \<open>
  MD5 as RFC 1321 defines it: the message is padded with the byte \<open>0x80\<close>, zero bytes up
  to 56 modulo 64 and its length in bits as eight little-endian bytes; every block of
  sixteen little-endian 32-bit words goes through 64 rounds; the digest is the four state
  words in little-endian bytes, and \<^verbatim>\<open>hexdigest()\<close> writes each byte as two lowercase
  hexadecimal digits.
\<close>

definition md5_K :: "32 word list" where
  "md5_K = [
    0xd76aa478, 0xe8c7b756, 0x242070db, 0xc1bdceee, 0xf57c0faf, 0x4787c62a, 0xa8304613, 0xfd469501,
    0x698098d8, 0x8b44f7af, 0xffff5bb1, 0x895cd7be, 0x6b901122, 0xfd987193, 0xa679438e, 0x49b40821,
    0xf61e2562, 0xc040b340, 0x265e5a51, 0xe9b6c7aa, 0xd62f105d, 0x02441453, 0xd8a1e681, 0xe7d3fbc8,
    0x21e1cde6, 0xc33707d6, 0xf4d50d87, 0x455a14ed, 0xa9e3e905, 0xfcefa3f8, 0x676f02d9, 0x8d2a4c8a,
    0xfffa3942, 0x8771f681, 0x6d9d6122, 0xfde5380c, 0xa4beea44, 0x4bdecfa9, 0xf6bb4b60, 0xbebfbc70,
    0x289b7ec6, 0xeaa127fa, 0xd4ef3085, 0x04881d05, 0xd9d4d039, 0xe6db99e5, 0x1fa27cf8, 0xc4ac5665,
    0xf4292244, 0x432aff97, 0xab9423a7, 0xfc93a039, 0x655b59c3, 0x8f0ccc92, 0xffeff47d, 0x85845dd1,
    0x6fa87e4f, 0xfe2ce6e0, 0xa3014314, 0x4e0811a1, 0xf7537e82, 0xbd3af235, 0x2ad7d2bb, 0xeb86d391]"

definition md5_S :: "nat list" where
  "md5_S = [
    7, 12, 17, 22, 7, 12, 17, 22, 7, 12, 17, 22, 7, 12, 17, 22,
    5, 9, 14, 20, 5, 9, 14, 20, 5, 9, 14, 20, 5, 9, 14, 20,
    4, 11, 16, 23, 4, 11, 16, 23, 4, 11, 16, 23, 4, 11, 16, 23,
    6, 10, 15, 21, 6, 10, 15, 21, 6, 10, 15, 21, 6, 10, 15, 21]"

type_synonym md5_state = "32 word \<times> 32 word \<times> 32 word \<times> 32 word"

definition md5_round :: "32 word list \<Rightarrow> md5_state \<Rightarrow> nat \<Rightarrow> md5_state" where
  "md5_round M st i =
     (case st of (a, b, c, d) \<Rightarrow>
        let (f, g) =
              (if i < 16 then ((b AND c) OR (NOT b AND d), i)
               else if i < 32 then ((d AND b) OR (NOT d AND c), (5 * i + 1) mod 16)
               else if i < 48 then (b XOR c XOR d, (3 * i + 5) mod 16)
               else (c XOR (b OR NOT d), (7 * i) mod 16));
            f' = f + a + md5_K ! i + M ! g
        in (d, b + word_rotl (md5_S ! i) f', b, c))"

definition le_word32 :: "8 word list \<Rightarrow> 32 word" where
  "le_word32 bs = foldr (\<lambda>b w. push_bit 8 w OR ucast b) bs 0"

definition le_bytes :: "nat \<Rightarrow> 'a::len word \<Rightarrow> 8 word list" where
  "le_bytes n w = map (\<lambda>j. ucast (drop_bit (8 * j) w)) [0 ..< n]"

definition md5_pad :: "8 word list \<Rightarrow> 8 word list" where
  "md5_pad bs =
     bs @ [0x80] @ replicate ((119 - length bs mod 64) mod 64) 0 @ le_bytes 8 (8 * of_nat (length bs) :: 64 word)"

definition md5_blocks :: "8 word list \<Rightarrow> 32 word list list" where
  "md5_blocks bs =
     map (\<lambda>j. map (\<lambda>w. le_word32 (take 4 (drop (64 * j + 4 * w) bs))) [0 ..< 16])
       [0 ..< length bs div 64]"

definition md5_block :: "md5_state \<Rightarrow> 32 word list \<Rightarrow> md5_state" where
  "md5_block st M =
     (case (st, foldl (md5_round M) st [0 ..< 64]) of
        ((a0, b0, c0, d0), (a, b, c, d)) \<Rightarrow> (a0 + a, b0 + b, c0 + c, d0 + d))"

definition md5_init :: md5_state where
  "md5_init = (0x67452301, 0xefcdab89, 0x98badcfe, 0x10325476)"

definition md5_digest :: "8 word list \<Rightarrow> 8 word list" where
  "md5_digest bs =
     (case foldl md5_block md5_init (md5_blocks (md5_pad bs)) of
        (a, b, c, d) \<Rightarrow> concat (map (\<lambda>w. le_bytes 4 w) [a, b, c, d]))"

definition hex_byte :: "8 word \<Rightarrow> string" where
  "hex_byte b = [hex_digit (unat (drop_bit 4 b)), hex_digit (unat (take_bit 4 b))]"

definition md5_hexdigest :: "8 word list \<Rightarrow> string" where
  "md5_hexdigest bs = concat (map hex_byte (md5_digest bs))"

text \<open>\<^verbatim>\<open>s.encode("utf-8")\<close> for code points below 256: one byte below 128, two bytes above.\<close>

definition utf8_encode :: "string \<Rightarrow> 8 word list" where
  "utf8_encode s =
     concat (map (\<lambda>c. let n = (of_char c :: nat) in
                     if n < 128 then [of_nat n]
                     else [of_nat (192 + n div 64), of_nat (128 + n mod 64)]) s)"

subsection \<open>\<^verbatim>\<open>uuid.uuid4\<close>\<close>

text \<open>
  \<^verbatim>\<open>uuid.uuid4()\<close> reads sixteen random bytes as a 128-bit number, sets the variant bits to
  \<open>10\<close> and the version nibble to \<open>4\<close>; \<^verbatim>\<open>str\<close> writes the number as 32 hexadecimal
  digits in groups of 8, 4, 4, 4 and 12. The random number is an argument.
\<close>

definition uuid4 :: "128 word \<Rightarrow> 128 word" where
  "uuid4 r =
     (((r AND NOT (push_bit 48 0xc000)) OR push_bit 48 0x8000)
        AND NOT (push_bit 64 0xf000)) OR push_bit 76 4"

definition uuid_str :: "128 word \<Rightarrow> string" where
  "uuid_str u =
     (let h = map (\<lambda>i. hex_digit (unat (take_bit 4 (drop_bit (4 * (31 - i)) u)))) [0 ..< 32]
      in take 8 h @ ''-'' @ take 4 (drop 8 h) @ ''-'' @ take 4 (drop 12 h) @ ''-''
           @ take 4 (drop 16 h) @ ''-'' @ drop 20 h)"

subsection \<open>State, responses, errors\<close>

text \<open>
  A WebSocket connection is a handle. \<open>ws_clients\<close> lists the members of the Python set
  in the order in which the set iterates; \<open>sends\<close> is the record of every call
  \<^verbatim>\<open>ws.send(msg)\<close> made so far, oldest first: the connection, the message, and whether the
  call returned (\<open>True\<close>) or raised (\<open>False\<close>).
\<close>

type_synonym ws = nat

record state =
  services :: "(string \<times> pydict) list"
  ws_clients :: "ws list"
  sends :: "(ws \<times> string \<times> bool) list"

datatype payload = Text string | Json json

record response =
  status :: nat
  payload :: payload
  headers :: "(string \<times> string) list"

text \<open>An exception that leaves a handler is a value: Flask answers it with status 500.\<close>

datatype py_error = AttributeError | TypeError | KeyError

definition now_iso :: "string \<Rightarrow> string" where
  \<comment> \<open>\<^verbatim>\<open>datetime.now(timezone.utc).isoformat()\<close>: the text of the clock reading, which is the argument\<close>
  "now_iso clock = clock"

definition compute_etag :: "pydict \<Rightarrow> string" where
  "compute_etag obj = md5_hexdigest (utf8_encode (dumps True '','' '':'' (JObj obj)))"

subsection \<open>\<^verbatim>\<open>broadcast\<close>\<close>

text \<open>
  The first loop of \<^verbatim>\<open>broadcast\<close> runs over \<^verbatim>\<open>list(ws_clients)\<close>, a snapshot; \<open>send_ok ws\<close>
  tells whether \<^verbatim>\<open>ws.send(msg)\<close> returns. A connection whose send raises is appended to
  \<^verbatim>\<open>dead\<close>. The second loop discards the dead connections from the set.
\<close>

fun send_all ::
  "(ws \<Rightarrow> bool) \<Rightarrow> string \<Rightarrow> ws list \<Rightarrow> ws list \<times> (ws \<times> string \<times> bool) list
     \<Rightarrow> ws list \<times> (ws \<times> string \<times> bool) list" where
  "send_all send_ok msg [] (dead, sent) = (dead, sent)"
| "send_all send_ok msg (ws # rest) (dead, sent) =
     send_all send_ok msg rest
       (if send_ok ws then dead else dead @ [ws], sent @ [(ws, msg, send_ok ws)])"

definition discard :: "ws list \<Rightarrow> ws \<Rightarrow> ws list" where
  "discard cs ws = removeAll ws cs"

definition broadcast :: "(ws \<Rightarrow> bool) \<Rightarrow> json \<Rightarrow> state \<Rightarrow> state" where
  "broadcast send_ok event st =
     (let msg = dumps False '', '' '': '' event;
          (dead, sent) = send_all send_ok msg (ws_clients st) ([], sends st)
      in st\<lparr>ws_clients := foldl discard (ws_clients st) dead, sends := sent\<rparr>)"

subsection \<open>REST handlers\<close>

text \<open>
  \<^verbatim>\<open>request.get_json(silent=True) or {}\<close>: the parsed body, or the empty dict when there is
  no parsable JSON body (\<open>None\<close>) or the parsed value is falsy.
\<close>

definition request_data :: "json option \<Rightarrow> json" where
  "request_data body =
     (case body of None \<Rightarrow> JObj [] | Some v \<Rightarrow> if truthy v then v else JObj [])"

definition required :: "string list" where
  "required = [''type'', ''name'', ''address'']"

text \<open>\<^verbatim>\<open>[k for k in required if not data.get(k)]\<close>\<close>

definition missing_fields :: "pydict \<Rightarrow> string list" where
  "missing_fields data =
     filter (\<lambda>k. case dict_get data k of None \<Rightarrow> True | Some v \<Rightarrow> \<not> truthy v) required"

definition missing_response :: "string list \<Rightarrow> response" where
  "missing_response missing =
     \<lparr>status = 400,
      payload = Json (JObj [(''error'', JStr ''missing_fields''),
                            (''fields'', JArr (map JStr missing))]),
      headers = []\<rparr>"

definition not_found :: response where
  "not_found = \<lparr>status = 404, payload = Json (JObj [(''error'', JStr ''not_found'')]), headers = []\<rparr>"

text \<open>
  \<^verbatim>\<open>create_service\<close>. On a body that is not a dict, \<^verbatim>\<open>data.get\<close> raises \<^verbatim>\<open>AttributeError\<close>.
  \<open>rnd\<close> is the random number behind \<^verbatim>\<open>uuid.uuid4()\<close>, \<open>clock\<close> the clock reading.
\<close>

definition create_service ::
  "128 word \<Rightarrow> string \<Rightarrow> (ws \<Rightarrow> bool) \<Rightarrow> json option \<Rightarrow> state
     \<Rightarrow> (py_error + response) \<times> state" where
  "create_service rnd clock send_ok body st =
     (case request_data body of
        JObj data \<Rightarrow>
          let missing = missing_fields data in
          if missing \<noteq> [] then (Inr (missing_response missing), st)
          else
            (case (dict_get data ''type'', dict_get data ''name'', dict_get data ''address'') of
               (Some ty, Some nm, Some ad) \<Rightarrow>
                 let sid = uuid_str (uuid4 rnd);
                     service =
                       [(''id'', JStr sid),
                        (''type'', ty),
                        (''name'', nm),
                        (''address'', ad),
                        (''hours'', dict_get_default data ''hours'' (JStr '''')),
                        (''phone'', dict_get_default data ''phone'' (JStr '''')),
                        (''updatedAt'', JStr (now_iso clock))];
                     st1 = st\<lparr>services := dict_set (services st) sid service\<rparr>;
                     st2 = broadcast send_ok
                             (JObj [(''event'', JStr ''serviceCreated''), (''service'', JObj service)])
                             st1
                 in (Inr \<lparr>status = 201, payload = Json (JObj service),
                          headers = [(''Location'', ''/api/v1/services/'' @ sid)]\<rparr>, st2)
             | _ \<Rightarrow> (Inl KeyError, st))
      | _ \<Rightarrow> (Inl AttributeError, st))"

text \<open>\<^verbatim>\<open>list_services\<close>; \<open>t\<close> is \<^verbatim>\<open>request.args.get("type")\<close>.\<close>

definition list_services :: "string option \<Rightarrow> state \<Rightarrow> response" where
  "list_services t st =
     (let items = dict_values (services st);
          items' = (case t of
                      None \<Rightarrow> items
                    | Some x \<Rightarrow>
                        if x \<noteq> [] then filter (\<lambda>s. dict_get s ''type'' = Some (JStr x)) items
                        else items)
      in \<lparr>status = 200, payload = Json (JArr (map JObj items')), headers = []\<rparr>)"

definition cache_control :: string where
  "cache_control = ''private, max-age=0, must-revalidate''"

text \<open>
  \<^verbatim>\<open>get_service\<close>; \<open>inm\<close> is \<^verbatim>\<open>request.headers.get("If-None-Match")\<close>. \<^verbatim>\<open>not service\<close>
  holds for \<^verbatim>\<open>None\<close> and for an empty dict.
\<close>

definition get_service :: "string \<Rightarrow> string option \<Rightarrow> state \<Rightarrow> response" where
  "get_service sid inm st =
     (case dict_get (services st) sid of
        None \<Rightarrow> not_found
      | Some service \<Rightarrow>
          if service = [] then not_found
          else
            let etag = compute_etag service in
            if (case inm of None \<Rightarrow> False | Some x \<Rightarrow> x \<noteq> [] \<and> x = etag)
            then \<lparr>status = 304, payload = Text [],
                  headers = [(''ETag'', etag), (''Cache-Control'', cache_control)]\<rparr>
            else \<lparr>status = 200, payload = Json (JObj service),
                  headers = [(''ETag'', etag), (''Cache-Control'', cache_control)]\<rparr>)"

text \<open>
  \<^verbatim>\<open>put_service\<close>. The record is changed in place, so it keeps the keys it had that the
  handler does not assign.
\<close>

definition put_service ::
  "string \<Rightarrow> string \<Rightarrow> json option \<Rightarrow> state \<Rightarrow> (py_error + response) \<times> state" where
  "put_service sid clock body st =
     (case dict_get (services st) sid of
        None \<Rightarrow> (Inr not_found, st)
      | Some service \<Rightarrow>
          (case request_data body of
             JObj data \<Rightarrow>
               let missing = missing_fields data in
               if missing \<noteq> [] then (Inr (missing_response missing), st)
               else
                 (case (dict_get data ''type'', dict_get data ''name'', dict_get data ''address'') of
                    (Some ty, Some nm, Some ad) \<Rightarrow>
                      let s1 = dict_set service ''type'' ty;
                          s2 = dict_set s1 ''name'' nm;
                          s3 = dict_set s2 ''address'' ad;
                          s4 = dict_set s3 ''hours'' (dict_get_default data ''hours'' (JStr ''''));
                          s5 = dict_set s4 ''phone'' (dict_get_default data ''phone'' (JStr ''''));
                          s6 = dict_set s5 ''updatedAt'' (JStr (now_iso clock))
                      in (Inr \<lparr>status = 200, payload = Json (JObj s6), headers = []\<rparr>,
                          st\<lparr>services := dict_set (services st) sid s6\<rparr>)
                  | _ \<Rightarrow> (Inl KeyError, st))
           | _ \<Rightarrow> (Inl AttributeError, st)))"

text \<open>
  \<^verbatim>\<open>k in data\<close> and \<^verbatim>\<open>data[k]\<close> for a string \<open>k\<close>. On a dict they test and read the key.
  On a string \<^verbatim>\<open>in\<close> is the substring test and on a list the membership test, and
  indexing either with a string raises \<^verbatim>\<open>TypeError\<close>; on anything else both raise
  \<^verbatim>\<open>TypeError\<close>.
\<close>

definition is_substring :: "string \<Rightarrow> string \<Rightarrow> bool" where
  "is_substring k s = list_ex (\<lambda>i. take (length k) (drop i s) = k) [0 ..< Suc (length s)]"

fun py_contains :: "string \<Rightarrow> json \<Rightarrow> py_error + bool" where
  "py_contains k (JObj d) = Inr (dict_has d k)"
| "py_contains k (JStr s) = Inr (is_substring k s)"
| "py_contains k (JArr xs) = Inr (list_ex (\<lambda>x. x = JStr k) xs)"
| "py_contains k _ = Inl TypeError"

fun py_getitem :: "json \<Rightarrow> string \<Rightarrow> py_error + json" where
  "py_getitem (JObj d) k = (case dict_get d k of None \<Rightarrow> Inl KeyError | Some v \<Rightarrow> Inr v)"
| "py_getitem _ k = Inl TypeError"

text \<open>
  The loop of \<^verbatim>\<open>patch_service\<close> over the five keys. It changes the record in place, so an
  exception leaves the record as the loop had made it so far.
\<close>

fun patch_fields :: "json \<Rightarrow> string list \<Rightarrow> pydict \<Rightarrow> py_error option \<times> pydict" where
  "patch_fields data [] service = (None, service)"
| "patch_fields data (k # ks) service =
     (case py_contains k data of
        Inl e \<Rightarrow> (Some e, service)
      | Inr present \<Rightarrow>
          if present
          then (case py_getitem data k of
                  Inl e \<Rightarrow> (Some e, service)
                | Inr v \<Rightarrow> patch_fields data ks (dict_set service k v))
          else patch_fields data ks service)"

definition patchable :: "string list" where
  "patchable = [''type'', ''name'', ''address'', ''hours'', ''phone'']"

definition patch_service ::
  "string \<Rightarrow> string \<Rightarrow> json option \<Rightarrow> state \<Rightarrow> (py_error + response) \<times> state" where
  "patch_service sid clock body st =
     (case dict_get (services st) sid of
        None \<Rightarrow> (Inr not_found, st)
      | Some service \<Rightarrow>
          if service = [] then (Inr not_found, st)
          else
            (case patch_fields (request_data body) patchable service of
               (Some e, service') \<Rightarrow>
                 (Inl e, st\<lparr>services := dict_set (services st) sid service'\<rparr>)
             | (None, service') \<Rightarrow>
                 let service'' = dict_set service' ''updatedAt'' (JStr (now_iso clock))
                 in (Inr \<lparr>status = 200, payload = Json (JObj service''), headers = []\<rparr>,
                     st\<lparr>services := dict_set (services st) sid service''\<rparr>)))"

definition delete_service :: "string \<Rightarrow> state \<Rightarrow> response \<times> state" where
  "delete_service sid st =
     (if \<not> dict_has (services st) sid then (not_found, st)
      else (\<lparr>status = 204, payload = Text [], headers = []\<rparr>,
            st\<lparr>services := dict_del (services st) sid\<rparr>))"

subsection \<open>WebSocket endpoint\<close>

text \<open>
  \<^verbatim>\<open>ws_endpoint\<close> adds the connection, sends the greeting and then waits in
  \<^verbatim>\<open>ws.receive()\<close>; its \<^verbatim>\<open>finally\<close> clause discards the connection when the greeting
  raises, when the peer closes or when \<^verbatim>\<open>receive\<close> raises. The model has one step for
  the arrival (\<open>ws_open\<close>) and one for the departure (\<open>ws_close\<close>); other requests are
  served between the two.
\<close>

definition ws_add :: "ws list \<Rightarrow> ws \<Rightarrow> ws list" where
  "ws_add cs ws = (if ws \<in> set cs then cs else cs @ [ws])"

definition ws_open :: "bool \<Rightarrow> ws \<Rightarrow> state \<Rightarrow> state" where
  "ws_open greeted ws st =
     (let st1 = st\<lparr>ws_clients := ws_add (ws_clients st) ws,
                   sends := sends st @ [(ws, dumps False '', '' '': '' (JObj [(''event'', JStr ''connected'')]), greeted)]\<rparr>
      in if greeted then st1 else st1\<lparr>ws_clients := discard (ws_clients st1) ws\<rparr>)"

definition ws_close :: "ws \<Rightarrow> state \<Rightarrow> state" where
  "ws_close ws st = st\<lparr>ws_clients := discard (ws_clients st) ws\<rparr>"

subsection \<open>GraphQL resolvers\<close>

definition resolve_services :: "string option \<Rightarrow> state \<Rightarrow> pydict list" where
  "resolve_services type st =
     (let items = dict_values (services st)
      in case type of
           None \<Rightarrow> items
         | Some x \<Rightarrow>
             if x \<noteq> [] then filter (\<lambda>s. dict_get s ''type'' = Some (JStr x)) items
             else items)"

definition resolve_service :: "string \<Rightarrow> state \<Rightarrow> pydict option" where
  "resolve_service ident st = dict_get (services st) ident"

subsection \<open>Reachable states\<close>

text \<open>The state when the module has been loaded: no record, no connection.\<close>

definition init_state :: state where
  "init_state = \<lparr>services = [], ws_clients = [], sends = []\<rparr>"

text \<open>
  The states the program can be in: the initial state, and the state after any handler
  that writes, run from a state the program can be in, with any arguments. The handlers
  that only read leave the state as it is.
\<close>

inductive reachable :: "state \<Rightarrow> bool" where
  init: "reachable init_state"
| create: "reachable st \<Longrightarrow> reachable (snd (create_service rnd clock send_ok body st))"
| put: "reachable st \<Longrightarrow> reachable (snd (put_service sid clock body st))"
| patch: "reachable st \<Longrightarrow> reachable (snd (patch_service sid clock body st))"
| delete: "reachable st \<Longrightarrow> reachable (snd (delete_service sid st))"
| ws_open: "reachable st \<Longrightarrow> reachable (ws_open greeted ws st)"
| ws_close: "reachable st \<Longrightarrow> reachable (ws_close ws st)"

definition ids_are_keys :: "state \<Rightarrow> bool" where
  "ids_are_keys st \<longleftrightarrow>
     (\<forall>sid service. dict_get (services st) sid = Some service \<longrightarrow>
        dict_get service ''id'' = Some (JStr sid))"

subsection \<open>Example values\<close>

text \<open>A record as \<^verbatim>\<open>create_service\<close> stores it, and a registry that holds it.\<close>

definition example_service :: pydict where
  "example_service =
     [(''id'', JStr ''00000000-0000-4000-8000-000000000000''),
      (''type'', JStr ''clinic''),
      (''name'', JStr ''Hope Clinic''),
      (''address'', JStr ''1 Main St''),
      (''hours'', JStr ''''),
      (''phone'', JStr ''''),
      (''updatedAt'', JStr ''2024-01-01T00:00:00+00:00'')]"

definition example_state :: state where
  "example_state =
     \<lparr>services = [(''00000000-0000-4000-8000-000000000000'', example_service)],
      ws_clients = [], sends = []\<rparr>"

text \<open>The input of a create request, complete and without its name.\<close>

definition example_fields :: pydict where
  "example_fields =
     [(''type'', JStr ''clinic''), (''name'', JStr ''Hope Clinic''), (''address'', JStr ''1 Main St'')]"

definition nameless_fields :: pydict where
  "nameless_fields = [(''type'', JStr ''clinic''), (''address'', JStr ''1 Main St'')]"

text \<open>A second record, of another type, and a registry that holds both.\<close>

definition example_shelter :: pydict where
  "example_shelter =
     [(''id'', JStr ''ffffffff-ffff-4fff-bfff-ffffffffffff''),
      (''type'', JStr ''shelter''),
      (''name'', JStr ''Night Shelter''),
      (''address'', JStr ''2 Side St''),
      (''hours'', JStr ''24h''),
      (''phone'', JStr ''''),
      (''updatedAt'', JStr ''2024-01-02T00:00:00+00:00'')]"

definition example_state2 :: state where
  "example_state2 =
     \<lparr>services = [(''00000000-0000-4000-8000-000000000000'', example_service),
                  (''ffffffff-ffff-4fff-bfff-ffffffffffff'', example_shelter)],
      ws_clients = [], sends = []\<rparr>"

text \<open>Three connections, the second of which is closed, and the event of a creation.\<close>

definition example_clients :: state where
  "example_clients = \<lparr>services = [], ws_clients = [1, 2, 3], sends = []\<rparr>"

definition second_closed :: "ws \<Rightarrow> bool" where
  "second_closed ws = (ws \<noteq> 2)"

definition example_event :: json where
  "example_event = JObj [(''event'', JStr ''serviceCreated''), (''service'', JObj example_service)]"


definition name_eraser :: pydict where
  "name_eraser = [(''name'', JStr '''')]"

definition erased_service :: pydict where
  "erased_service =
     [(''id'', JStr ''00000000-0000-4000-8000-000000000000''),
      (''type'', JStr ''clinic''),
      (''name'', JStr ''''),
      (''address'', JStr ''1 Main St''),
      (''hours'', JStr ''''),
      (''phone'', JStr ''''),
      (''updatedAt'', JStr ''2024-01-03T00:00:00+00:00'')]"

definition rename_patch :: pydict where
  "rename_patch = [(''name'', JStr ''Hope Clinic West'')]"

section \<open>Properties\<close>

subsection \<open>Dicts, the fingerprint\<close>

lemma dict_get_set: "dict_get (dict_set d k v) k' = (if k' = k then Some v else dict_get d k')"
  by (induction d) auto

lemma dict_get_None_iff: "dict_get d k = None \<longleftrightarrow> k \<notin> fst ` set d"
  by (induction d) (auto split: if_splits)

lemma dict_get_Some_mem: "dict_get d k = Some v \<Longrightarrow> (k, v) \<in> set d"
  by (induction d) (auto split: if_splits)


lemma dict_set_nonempty: "dict_set d k v \<noteq> []"
  by (cases d) (auto split: if_splits)

lemma dict_get_del: "dict_get (dict_del d k) k' = (if k' = k then None else dict_get d k')"
  by (induction d) (auto simp: dict_del_def)

lemma length_le_bytes: "length (le_bytes n w) = n"
  by (simp add: le_bytes_def)

lemma length_md5_digest: "length (md5_digest bs) = 16"
  by (simp add: md5_digest_def length_le_bytes split: prod.splits)

lemma length_concat_hex: "length (concat (map hex_byte xs)) = 2 * length xs"
  by (induction xs) (auto simp: hex_byte_def)

lemma length_md5_hexdigest: "length (md5_hexdigest bs) = 32"
  by (simp add: md5_hexdigest_def length_concat_hex length_md5_digest)

lemma length_compute_etag: "length (compute_etag obj) = 32"
  by (simp add: compute_etag_def length_md5_hexdigest)

lemma insort_key_map_snd:
  "insort_key fst (fst x, g (snd x)) (map (\<lambda>kv. (fst kv, g (snd kv))) xs)
     = map (\<lambda>kv. (fst kv, g (snd kv))) (insort_key fst x xs)"
  by (induction xs) auto

lemma sort_key_map_snd:
  "sort_key fst (map (\<lambda>kv. (fst kv, g (snd kv))) xs)
     = map (\<lambda>kv. (fst kv, g (snd kv))) (sort_key fst xs)"
  by (induction xs) (auto simp: insort_key_map_snd)

lemma dumps_sorted_compact:
  "dumps True '','' '':'' (JObj obj) =
     ''{'' @ join '','' (map (\<lambda>kv. encode_str (fst kv) @ '':'' @ dumps True '','' '':'' (snd kv))
                          (sort_key fst obj)) @ ''}''"
  by (simp add: sort_key_map_snd comp_def)

lemma distinct_keys_insort_key:
  "distinct (map fst (insort_key fst x xs)) = (fst x \<notin> fst ` set xs \<and> distinct (map fst xs))"
  by (induction xs) (auto simp: set_insort_key)

lemma distinct_keys_sort_key:
  "distinct (map fst (sort_key fst d)) = distinct (map fst d)"
  by (induction d) (auto simp: distinct_keys_insort_key)

lemma sort_key_fst_unique:
  assumes "distinct (map fst d)" "distinct (map fst d')" "set d = set d'"
  shows "sort_key fst d = sort_key fst d'"
proof (rule map_sorted_distinct_set_unique[where f = fst])
  have "inj_on fst (set d)" using assms(1) by (simp add: distinct_map)
  then show "inj_on fst (set (sort_key fst d) \<union> set (sort_key fst d'))"
    using assms(3) by simp
  show "distinct (map fst (sort_key fst d))" using assms(1) by (simp add: distinct_keys_sort_key)
  show "distinct (map fst (sort_key fst d'))" using assms(2) by (simp add: distinct_keys_sort_key)
qed (use assms in simp_all)

lemma compute_etag_insertion_order:
  assumes "distinct (map fst d)" "distinct (map fst d')" "set d = set d'"
  shows "compute_etag d = compute_etag d'"
  unfolding compute_etag_def dumps_sorted_compact
  using sort_key_fst_unique[OF assms] by simp

text \<open>
  The model of \<^verbatim>\<open>compute_etag\<close> on the example record gives the digest that
  \<^verbatim>\<open>hashlib.md5\<close> gives for its canonical serialisation.
\<close>

lemma compute_etag_example:
  "compute_etag example_service = ''dbb2cffafa031fc9d9cf3e75087d5b5c''"
  by code_simp

subsection \<open>Conditional read\<close>

text \<open>
  Claim C1. The fingerprint of a stored record is the MD5 hex digest, 32 characters long,
  of the record written with its keys in sorted order, \<open>,\<close> between items and \<open>:\<close>
  between key and value. A read whose \<^verbatim>\<open>If-None-Match\<close> header equals the fingerprint is
  answered 304 with an empty body; a read with any other header value, or with none, is
  answered 200 with the record. Both answers carry the fingerprint as \<^verbatim>\<open>ETag\<close> and
  \<^verbatim>\<open>Cache-Control: private, max-age=0, must-revalidate\<close>. The record is taken to be
  a non-empty dict, which the handler tests with \<^verbatim>\<open>not service\<close>; every record of a
  reachable state is (\<open>reachable_record_nonempty\<close> below).
\<close>

theorem get_service_conditional:
  assumes "dict_get (services st) sid = Some service" and "service \<noteq> []"
  shows "length (compute_etag service) = 32 \<and>
         compute_etag service =
           md5_hexdigest (utf8_encode
             (''{'' @ join '','' (map (\<lambda>kv. encode_str (fst kv) @ '':'' @ dumps True '','' '':'' (snd kv))
                                  (sort_key fst service)) @ ''}'')) \<and>
         get_service sid (Some (compute_etag service)) st =
           \<lparr>status = 304, payload = Text [],
            headers = [(''ETag'', compute_etag service),
                       (''Cache-Control'', ''private, max-age=0, must-revalidate'')]\<rparr> \<and>
         (\<forall>inm. inm \<noteq> Some (compute_etag service) \<longrightarrow>
            get_service sid inm st =
              \<lparr>status = 200, payload = Json (JObj service),
               headers = [(''ETag'', compute_etag service),
                          (''Cache-Control'', ''private, max-age=0, must-revalidate'')]\<rparr>)"
proof -
  have ne: "compute_etag service \<noteq> []"
    using length_compute_etag[of service] by auto
  have e: "compute_etag service =
           md5_hexdigest (utf8_encode
             (''{'' @ join '','' (map (\<lambda>kv. encode_str (fst kv) @ '':'' @ dumps True '','' '':'' (snd kv))
                                  (sort_key fst service)) @ ''}''))"
    unfolding compute_etag_def dumps_sorted_compact ..
  have hit: "get_service sid (Some (compute_etag service)) st =
           \<lparr>status = 304, payload = Text [],
            headers = [(''ETag'', compute_etag service),
                       (''Cache-Control'', ''private, max-age=0, must-revalidate'')]\<rparr>"
    using assms ne by (simp add: get_service_def cache_control_def)
  have miss: "get_service sid inm st =
              \<lparr>status = 200, payload = Json (JObj service),
               headers = [(''ETag'', compute_etag service),
                          (''Cache-Control'', ''private, max-age=0, must-revalidate'')]\<rparr>"
    if "inm \<noteq> Some (compute_etag service)" for inm
    using assms that by (cases inm) (auto simp: get_service_def cache_control_def Let_def)
  show ?thesis using length_compute_etag e hit miss by blast
qed

theorem get_service_conditional_witness:
  "dict_get (services example_state) ''00000000-0000-4000-8000-000000000000'' = Some example_service \<and>
   example_service \<noteq> [] \<and>
   length (compute_etag example_service) = 32 \<and>
   get_service ''00000000-0000-4000-8000-000000000000'' (Some (compute_etag example_service)) example_state =
     \<lparr>status = 304, payload = Text [],
      headers = [(''ETag'', compute_etag example_service),
                 (''Cache-Control'', ''private, max-age=0, must-revalidate'')]\<rparr> \<and>
   get_service ''00000000-0000-4000-8000-000000000000'' None example_state =
     \<lparr>status = 200, payload = Json (JObj example_service),
      headers = [(''ETag'', compute_etag example_service),
                 (''Cache-Control'', ''private, max-age=0, must-revalidate'')]\<rparr>"
proof -
  have h1: "dict_get (services example_state) ''00000000-0000-4000-8000-000000000000'' = Some example_service"
    by (simp add: example_state_def)
  have h2: "example_service \<noteq> []"
    by (simp add: example_service_def)
  note t = get_service_conditional[OF h1 h2]
  have h3: "length (compute_etag example_service) = 32"
    using t by (rule conjunct1)
  have h4: "get_service ''00000000-0000-4000-8000-000000000000'' (Some (compute_etag example_service)) example_state =
     \<lparr>status = 304, payload = Text [],
      headers = [(''ETag'', compute_etag example_service),
                 (''Cache-Control'', ''private, max-age=0, must-revalidate'')]\<rparr>"
    using t by blast
  have h5: "get_service ''00000000-0000-4000-8000-000000000000'' None example_state =
     \<lparr>status = 200, payload = Json (JObj example_service),
      headers = [(''ETag'', compute_etag example_service),
                 (''Cache-Control'', ''private, max-age=0, must-revalidate'')]\<rparr>"
    using t by blast
  show ?thesis
    using h1 h2 h3 h4 h5 by blast
qed

subsection \<open>Identifiers, broadcast\<close>

lemma length_uuid_str: "length (uuid_str u) = 36"
  by (simp add: uuid_str_def Let_def)

lemma send_all_eq:
  "send_all send_ok msg cs (dead, sent) =
     (dead @ filter (\<lambda>w. \<not> send_ok w) cs, sent @ map (\<lambda>w. (w, msg, send_ok w)) cs)"
  by (induction cs arbitrary: dead sent) auto

lemma foldl_discard: "foldl discard cs dead = filter (\<lambda>w. w \<notin> set dead) cs"
proof (induction dead arbitrary: cs)
  case Nil
  then show ?case by simp
next
  case (Cons d ds)
  have "filter (\<lambda>w. w \<notin> set ds) (removeAll d cs) = filter (\<lambda>w. w \<notin> set (d # ds)) cs"
    by (induction cs) auto
  with Cons show ?case by (simp add: discard_def)
qed

lemma broadcast_eq:
  "broadcast send_ok event st =
     st\<lparr>ws_clients := filter send_ok (ws_clients st),
        sends := sends st @ map (\<lambda>w. (w, dumps False '', '' '': '' event, send_ok w)) (ws_clients st)\<rparr>"
proof -
  have "filter (\<lambda>w. w \<notin> set (filter (\<lambda>w. \<not> send_ok w) cs)) cs = filter send_ok cs" for cs
    by (rule filter_cong) auto
  then show ?thesis
    by (simp add: broadcast_def Let_def send_all_eq foldl_discard)
qed

lemma missing_fields_Nil:
  "missing_fields data = [] \<longleftrightarrow>
     (\<exists>ty nm ad. dict_get data ''type'' = Some ty \<and> truthy ty \<and>
                 dict_get data ''name'' = Some nm \<and> truthy nm \<and>
                 dict_get data ''address'' = Some ad \<and> truthy ad)"
  by (auto simp: missing_fields_def required_def split: option.splits)

lemma services_broadcast: "services (broadcast send_ok event st) = services st"
  by (simp add: broadcast_eq)

subsection \<open>Create\<close>

text \<open>
  Create on a dict. Let the request data be a dict, which it is when the body is a JSON
  object and when there is no body, an unparsable one or a falsy one. The fields
  reported missing are those of
  \<open>type\<close>, \<open>name\<close>, \<open>address\<close>, in this order, that are absent or whose value is empty
  (falsy in Python: the empty string, and also \<^verbatim>\<open>None\<close>, \<^verbatim>\<open>False\<close>, \<open>0\<close>, \<open>[]\<close>, \<open>{}\<close>).
  When there is one, create answers 400 with exactly this list and leaves the state as it
  was. When there is none, create answers 201 with a record whose \<open>id\<close> is the generated
  identifier, 36 characters long, whose \<open>type\<close>, \<open>name\<close>, \<open>address\<close> are the input's, whose
  \<open>hours\<close> and \<open>phone\<close> are the input's or the empty string when omitted, and which is
  stored under the identifier.
\<close>

theorem create_service_validation:
  assumes "request_data body = JObj data"
  shows
    "missing_fields data =
       filter (\<lambda>k. \<forall>v. dict_get data k = Some v \<longrightarrow> \<not> truthy v) [''type'', ''name'', ''address''] \<and>
     (missing_fields data \<noteq> [] \<longrightarrow>
        create_service rnd clock send_ok body st =
          (Inr \<lparr>status = 400,
                payload = Json (JObj [(''error'', JStr ''missing_fields''),
                                      (''fields'', JArr (map JStr (missing_fields data)))]),
                headers = []\<rparr>, st)) \<and>
     (missing_fields data = [] \<longrightarrow>
        (\<exists>sid service st'.
           create_service rnd clock send_ok body st =
             (Inr \<lparr>status = 201, payload = Json (JObj service),
                   headers = [(''Location'', ''/api/v1/services/'' @ sid)]\<rparr>, st') \<and>
           length sid = 36 \<and>
           map fst service = [''id'', ''type'', ''name'', ''address'', ''hours'', ''phone'', ''updatedAt''] \<and>
           dict_get service ''id'' = Some (JStr sid) \<and>
           dict_get service ''type'' = dict_get data ''type'' \<and>
           dict_get service ''name'' = dict_get data ''name'' \<and>
           dict_get service ''address'' = dict_get data ''address'' \<and>
           dict_get service ''hours'' =
             Some (case dict_get data ''hours'' of None \<Rightarrow> JStr '''' | Some v \<Rightarrow> v) \<and>
           dict_get service ''phone'' =
             Some (case dict_get data ''phone'' of None \<Rightarrow> JStr '''' | Some v \<Rightarrow> v) \<and>
           dict_get service ''updatedAt'' = Some (JStr clock) \<and>
           dict_get (services st') sid = Some service))"
proof (intro conjI impI)
  show "missing_fields data =
       filter (\<lambda>k. \<forall>v. dict_get data k = Some v \<longrightarrow> \<not> truthy v) [''type'', ''name'', ''address'']"
    unfolding missing_fields_def required_def
    by (rule filter_cong) (auto split: option.splits)
next
  assume "missing_fields data \<noteq> []"
  then show "create_service rnd clock send_ok body st =
          (Inr \<lparr>status = 400,
                payload = Json (JObj [(''error'', JStr ''missing_fields''),
                                      (''fields'', JArr (map JStr (missing_fields data)))]),
                headers = []\<rparr>, st)"
    using assms by (simp add: create_service_def missing_response_def Let_def)
next
  assume m: "missing_fields data = []"
  then obtain ty nm ad where
    f: "dict_get data ''type'' = Some ty" "dict_get data ''name'' = Some nm"
       "dict_get data ''address'' = Some ad"
    unfolding missing_fields_Nil by blast
  define sid where "sid = uuid_str (uuid4 rnd)"
  define service where "service =
     [(''id'', JStr sid), (''type'', ty), (''name'', nm), (''address'', ad),
      (''hours'', dict_get_default data ''hours'' (JStr '''')),
      (''phone'', dict_get_default data ''phone'' (JStr '''')),
      (''updatedAt'', JStr clock)]"
  define st' where "st' = broadcast send_ok
      (JObj [(''event'', JStr ''serviceCreated''), (''service'', JObj service)])
      (st\<lparr>services := dict_set (services st) sid service\<rparr>)"
  have r: "create_service rnd clock send_ok body st =
             (Inr \<lparr>status = 201, payload = Json (JObj service),
                   headers = [(''Location'', ''/api/v1/services/'' @ sid)]\<rparr>, st')"
    using assms m f
    by (simp add: create_service_def Let_def sid_def service_def st'_def now_iso_def)
  have s: "dict_get (services st') sid = Some service"
    by (simp add: st'_def services_broadcast dict_get_set)
  have l: "length sid = 36" by (simp add: sid_def length_uuid_str)
  have g: "map fst service = [''id'', ''type'', ''name'', ''address'', ''hours'', ''phone'', ''updatedAt'']"
    "dict_get service ''id'' = Some (JStr sid)"
    "dict_get service ''type'' = dict_get data ''type''"
    "dict_get service ''name'' = dict_get data ''name''"
    "dict_get service ''address'' = dict_get data ''address''"
    "dict_get service ''hours'' = Some (case dict_get data ''hours'' of None \<Rightarrow> JStr '''' | Some v \<Rightarrow> v)"
    "dict_get service ''phone'' = Some (case dict_get data ''phone'' of None \<Rightarrow> JStr '''' | Some v \<Rightarrow> v)"
    "dict_get service ''updatedAt'' = Some (JStr clock)"
    using f by (simp_all add: service_def dict_get_default_def)
  show "\<exists>sid service st'.
           create_service rnd clock send_ok body st =
             (Inr \<lparr>status = 201, payload = Json (JObj service),
                   headers = [(''Location'', ''/api/v1/services/'' @ sid)]\<rparr>, st') \<and>
           length sid = 36 \<and>
           map fst service = [''id'', ''type'', ''name'', ''address'', ''hours'', ''phone'', ''updatedAt''] \<and>
           dict_get service ''id'' = Some (JStr sid) \<and>
           dict_get service ''type'' = dict_get data ''type'' \<and>
           dict_get service ''name'' = dict_get data ''name'' \<and>
           dict_get service ''address'' = dict_get data ''address'' \<and>
           dict_get service ''hours'' =
             Some (case dict_get data ''hours'' of None \<Rightarrow> JStr '''' | Some v \<Rightarrow> v) \<and>
           dict_get service ''phone'' =
             Some (case dict_get data ''phone'' of None \<Rightarrow> JStr '''' | Some v \<Rightarrow> v) \<and>
           dict_get service ''updatedAt'' = Some (JStr clock) \<and>
           dict_get (services st') sid = Some service"
    by (rule exI[of _ sid], rule exI[of _ service], rule exI[of _ st']) (intro conjI r s l g)
qed

theorem create_service_validation_witness:
  "request_data (Some (JObj nameless_fields)) = JObj nameless_fields \<and>
   missing_fields nameless_fields = [''name''] \<and>
   create_service 0 ''2024-01-01T00:00:00+00:00'' (\<lambda>ws. True) (Some (JObj nameless_fields)) init_state =
     (Inr \<lparr>status = 400,
           payload = Json (JObj [(''error'', JStr ''missing_fields''), (''fields'', JArr [JStr ''name''])]),
           headers = []\<rparr>, init_state) \<and>
   request_data (Some (JObj example_fields)) = JObj example_fields \<and>
   missing_fields example_fields = [] \<and>
   (\<exists>sid service st'.
      create_service 0 ''2024-01-01T00:00:00+00:00'' (\<lambda>ws. True) (Some (JObj example_fields)) init_state =
        (Inr \<lparr>status = 201, payload = Json (JObj service),
              headers = [(''Location'', ''/api/v1/services/'' @ sid)]\<rparr>, st') \<and>
      length sid = 36 \<and>
      dict_get service ''id'' = Some (JStr sid) \<and>
      dict_get service ''hours'' = Some (JStr '''') \<and>
      dict_get service ''phone'' = Some (JStr '''') \<and>
      dict_get (services st') sid = Some service)"
proof -
  have a1: "request_data (Some (JObj nameless_fields)) = JObj nameless_fields"
    by (simp add: request_data_def nameless_fields_def)
  have a2: "missing_fields nameless_fields = [''name'']"
    by (simp add: missing_fields_def required_def nameless_fields_def)
  have a3: "create_service 0 ''2024-01-01T00:00:00+00:00'' (\<lambda>ws. True) (Some (JObj nameless_fields)) init_state =
     (Inr \<lparr>status = 400,
           payload = Json (JObj [(''error'', JStr ''missing_fields''), (''fields'', JArr [JStr ''name''])]),
           headers = []\<rparr>, init_state)"
    using create_service_validation[OF a1, of 0 "''2024-01-01T00:00:00+00:00''" "\<lambda>ws. True" init_state] a2
    by simp
  have b1: "request_data (Some (JObj example_fields)) = JObj example_fields"
    by (simp add: request_data_def example_fields_def)
  have b2: "missing_fields example_fields = []"
    by (simp add: missing_fields_def required_def example_fields_def)
  have h: "dict_get example_fields ''hours'' = None" "dict_get example_fields ''phone'' = None"
    by (simp_all add: example_fields_def)
  have b3: "\<exists>sid service st'.
      create_service 0 ''2024-01-01T00:00:00+00:00'' (\<lambda>ws. True) (Some (JObj example_fields)) init_state =
        (Inr \<lparr>status = 201, payload = Json (JObj service),
              headers = [(''Location'', ''/api/v1/services/'' @ sid)]\<rparr>, st') \<and>
      length sid = 36 \<and>
      dict_get service ''id'' = Some (JStr sid) \<and>
      dict_get service ''hours'' = Some (JStr '''') \<and>
      dict_get service ''phone'' = Some (JStr '''') \<and>
      dict_get (services st') sid = Some service"
  proof -
    note t = create_service_validation[OF b1, of 0 "''2024-01-01T00:00:00+00:00''" "\<lambda>ws. True" init_state]
    from t b2 obtain sid service st' where
      c: "create_service 0 ''2024-01-01T00:00:00+00:00'' (\<lambda>ws. True) (Some (JObj example_fields)) init_state =
        (Inr \<lparr>status = 201, payload = Json (JObj service),
              headers = [(''Location'', ''/api/v1/services/'' @ sid)]\<rparr>, st')"
        "length sid = 36"
        "dict_get service ''id'' = Some (JStr sid)"
        "dict_get service ''hours'' =
           Some (case dict_get example_fields ''hours'' of None \<Rightarrow> JStr '''' | Some v \<Rightarrow> v)"
        "dict_get service ''phone'' =
           Some (case dict_get example_fields ''phone'' of None \<Rightarrow> JStr '''' | Some v \<Rightarrow> v)"
        "dict_get (services st') sid = Some service"
      by blast
    from c(4,5) h have "dict_get service ''hours'' = Some (JStr '''')"
      "dict_get service ''phone'' = Some (JStr '''')" by simp_all
    with c(1,2,3,6) show ?thesis by blast
  qed
  show ?thesis using a1 a2 a3 b1 b2 b3 by blast
qed

lemma create_service_not_a_dict:
  assumes "truthy v" and "\<forall>data. v \<noteq> JObj data"
  shows "create_service rnd clock send_ok (Some v) st = (Inl AttributeError, st)"
  using assms by (cases v) (simp_all add: create_service_def request_data_def)

text \<open>
  Claim C3. The claim is about every input in which a required field is absent or
  empty. On a dict the handler does what the claim says (\<open>create_service_validation\<close>
  above). A body that is JSON, truthy and not an object, such as \<^verbatim>\<open>[1]\<close> or
  \<^verbatim>\<open>"clinic"\<close>, has none of the three fields; \<^verbatim>\<open>request.get_json(silent=True) or {}\<close>
  hands it on as it is, \<^verbatim>\<open>data.get\<close> raises \<^verbatim>\<open>AttributeError\<close>, and the handler ends
  with this exception, not with the validation error that names the missing fields. The
  state is as it was.
\<close>

theorem create_service_non_object_body:
  "create_service rnd clock send_ok (Some (JArr [JNum 1])) st = (Inl AttributeError, st) \<and>
   create_service rnd clock send_ok (Some (JStr ''clinic'')) st = (Inl AttributeError, st) \<and>
   create_service rnd clock send_ok None st =
     (Inr \<lparr>status = 400,
           payload = Json (JObj [(''error'', JStr ''missing_fields''),
                                 (''fields'', JArr [JStr ''type'', JStr ''name'', JStr ''address''])]),
           headers = []\<rparr>, st)"
proof (intro conjI)
  show "create_service rnd clock send_ok (Some (JArr [JNum 1])) st = (Inl AttributeError, st)"
    by (rule create_service_not_a_dict) simp_all
  show "create_service rnd clock send_ok (Some (JStr ''clinic'')) st = (Inl AttributeError, st)"
    by (rule create_service_not_a_dict) simp_all
  show "create_service rnd clock send_ok None st =
     (Inr \<lparr>status = 400,
           payload = Json (JObj [(''error'', JStr ''missing_fields''),
                                 (''fields'', JArr [JStr ''type'', JStr ''name'', JStr ''address''])]),
           headers = []\<rparr>, st)"
    by (simp add: create_service_def request_data_def missing_fields_def required_def
          missing_response_def)
qed

theorem create_service_non_object_body_witness:
  "create_service 0 ''2024-01-01T00:00:00+00:00'' (\<lambda>ws. True) (Some (JArr [JNum 1])) init_state =
     (Inl AttributeError, init_state) \<and>
   create_service 0 ''2024-01-01T00:00:00+00:00'' (\<lambda>ws. True) (Some (JStr ''clinic'')) init_state =
     (Inl AttributeError, init_state)"
  using create_service_non_object_body[of 0 "''2024-01-01T00:00:00+00:00''" "\<lambda>ws. True" init_state]
  by blast

subsection \<open>Delete\<close>

text \<open>
  Claim C6. Deleting a stored identifier answers 204, removes exactly the items of that
  identifier from the registry and changes nothing else; afterwards a read of the
  identifier answers 404 and a second delete answers 404 and leaves the state as it is.
  Deleting an unknown identifier answers 404 and leaves the state as it is.
\<close>

theorem delete_service_semantics:
  "(dict_get (services st) sid \<noteq> None \<longrightarrow>
      (\<exists>st'. delete_service sid st = (\<lparr>status = 204, payload = Text [], headers = []\<rparr>, st') \<and>
         services st' = filter (\<lambda>kv. fst kv \<noteq> sid) (services st) \<and>
         ws_clients st' = ws_clients st \<and> sends st' = sends st \<and>
         dict_get (services st') sid = None \<and>
         (\<forall>k. k \<noteq> sid \<longrightarrow> dict_get (services st') k = dict_get (services st) k) \<and>
         (\<forall>inm. get_service sid inm st' = not_found) \<and>
         delete_service sid st' = (not_found, st'))) \<and>
   (dict_get (services st) sid = None \<longrightarrow> delete_service sid st = (not_found, st)) \<and>
   status not_found = 404"
proof (intro conjI impI)
  assume p: "dict_get (services st) sid \<noteq> None"
  define st' where "st' = st\<lparr>services := dict_del (services st) sid\<rparr>"
  have d: "delete_service sid st = (\<lparr>status = 204, payload = Text [], headers = []\<rparr>, st')"
    using p by (simp add: delete_service_def dict_has_def st'_def)
  have g: "dict_get (services st') k = (if k = sid then None else dict_get (services st) k)" for k
    by (simp add: st'_def dict_get_del)
  have "services st' = filter (\<lambda>kv. fst kv \<noteq> sid) (services st)"
    "ws_clients st' = ws_clients st" "sends st' = sends st"
    by (simp_all add: st'_def dict_del_def)
  moreover have "\<forall>inm. get_service sid inm st' = not_found"
    by (simp add: get_service_def g)
  moreover have "delete_service sid st' = (not_found, st')"
    by (simp add: delete_service_def dict_has_def g)
  ultimately show "\<exists>st'. delete_service sid st = (\<lparr>status = 204, payload = Text [], headers = []\<rparr>, st') \<and>
         services st' = filter (\<lambda>kv. fst kv \<noteq> sid) (services st) \<and>
         ws_clients st' = ws_clients st \<and> sends st' = sends st \<and>
         dict_get (services st') sid = None \<and>
         (\<forall>k. k \<noteq> sid \<longrightarrow> dict_get (services st') k = dict_get (services st) k) \<and>
         (\<forall>inm. get_service sid inm st' = not_found) \<and>
         delete_service sid st' = (not_found, st')"
    using d g by (intro exI[of _ st']) simp
next
  assume "dict_get (services st) sid = None"
  then show "delete_service sid st = (not_found, st)"
    by (simp add: delete_service_def dict_has_def)
next
  show "status not_found = 404" by (simp add: not_found_def)
qed

theorem delete_service_semantics_witness:
  "dict_get (services example_state) ''00000000-0000-4000-8000-000000000000'' \<noteq> None \<and>
   dict_get (services init_state) ''00000000-0000-4000-8000-000000000000'' = None \<and>
   delete_service ''00000000-0000-4000-8000-000000000000'' example_state =
     (\<lparr>status = 204, payload = Text [], headers = []\<rparr>, init_state) \<and>
   get_service ''00000000-0000-4000-8000-000000000000'' None init_state = not_found \<and>
   delete_service ''00000000-0000-4000-8000-000000000000'' init_state = (not_found, init_state)"
proof -
  let ?sid = "''00000000-0000-4000-8000-000000000000''"
  have h1: "dict_get (services example_state) ?sid \<noteq> None"
    by (simp add: example_state_def)
  have h2: "dict_get (services init_state) ?sid = None"
    by (simp add: init_state_def)
  from delete_service_semantics[of example_state ?sid] h1
  obtain st' where
    c: "delete_service ?sid example_state = (\<lparr>status = 204, payload = Text [], headers = []\<rparr>, st')"
       "services st' = filter (\<lambda>kv. fst kv \<noteq> ?sid) (services example_state)"
       "ws_clients st' = ws_clients example_state" "sends st' = sends example_state"
       "\<forall>inm. get_service ?sid inm st' = not_found"
       "delete_service ?sid st' = (not_found, st')"
    by blast
  have "st' = init_state"
    using c(2,3,4) by (simp add: example_state_def init_state_def)
  with c(1,5,6) h1 h2 show ?thesis by simp
qed

subsection \<open>Listing\<close>

text \<open>
  Claim C9. For every registry and every type filter, absent or empty (no filter) or a
  type name, the GraphQL resolver \<^verbatim>\<open>services(type)\<close> returns the records that the REST
  list operation answers with, in the same order: the values of the registry in
  insertion order, restricted to those whose \<open>type\<close> is the string asked for.
\<close>

theorem list_services_resolve_services:
  "list_services t st =
     \<lparr>status = 200, payload = Json (JArr (map JObj (resolve_services t st))), headers = []\<rparr> \<and>
   resolve_services None st = map snd (services st) \<and>
   resolve_services (Some []) st = map snd (services st) \<and>
   resolve_services (Some (c # cs)) st =
     filter (\<lambda>s. dict_get s ''type'' = Some (JStr (c # cs))) (map snd (services st))"
  by (simp add: list_services_def resolve_services_def dict_values_def Let_def split: option.splits)

theorem list_services_resolve_services_witness:
  "resolve_services (Some ''clinic'') example_state2 = [example_service] \<and>
   list_services (Some ''clinic'') example_state2 =
     \<lparr>status = 200, payload = Json (JArr [JObj example_service]), headers = []\<rparr> \<and>
   resolve_services None example_state2 = [example_service, example_shelter] \<and>
   list_services None example_state2 =
     \<lparr>status = 200, payload = Json (JArr [JObj example_service, JObj example_shelter]), headers = []\<rparr>"
proof -
  have a: "resolve_services (Some ''clinic'') example_state2 = [example_service]"
    using list_services_resolve_services[of "Some ''clinic''" example_state2]
    by (simp add: example_state2_def example_service_def example_shelter_def)
  have b: "resolve_services None example_state2 = [example_service, example_shelter]"
    using list_services_resolve_services[of None example_state2]
    by (simp add: example_state2_def)
  show ?thesis
    using a b list_services_resolve_services[of "Some ''clinic''" example_state2]
      list_services_resolve_services[of None example_state2]
    by simp
qed

subsection \<open>Broadcast\<close>

lemma create_service_created:
  assumes "request_data body = JObj data"
    and "dict_get data ''type'' = Some ty" and "truthy ty"
    and "dict_get data ''name'' = Some nm" and "truthy nm"
    and "dict_get data ''address'' = Some ad" and "truthy ad"
    and "service =
      [(''id'', JStr (uuid_str (uuid4 rnd))), (''type'', ty), (''name'', nm), (''address'', ad),
       (''hours'', dict_get_default data ''hours'' (JStr '''')),
       (''phone'', dict_get_default data ''phone'' (JStr '''')),
       (''updatedAt'', JStr clock)]"
  shows "create_service rnd clock send_ok body st =
      (Inr \<lparr>status = 201, payload = Json (JObj service),
            headers = [(''Location'', ''/api/v1/services/'' @ uuid_str (uuid4 rnd))]\<rparr>,
       broadcast send_ok (JObj [(''event'', JStr ''serviceCreated''), (''service'', JObj service)])
         (st\<lparr>services := dict_set (services st) (uuid_str (uuid4 rnd)) service\<rparr>))"
proof -
  have "missing_fields data = []"
    using assms(2-7) unfolding missing_fields_Nil by blast
  then show ?thesis
    using assms by (simp add: create_service_def Let_def now_iso_def)
qed

lemma create_service_not_created:
  assumes "\<not> (\<exists>data. request_data body = JObj data \<and> missing_fields data = [])"
  shows "snd (create_service rnd clock send_ok body st) = st"
    and "\<not> (\<exists>r. fst (create_service rnd clock send_ok body st) = Inr r \<and> status r = 201)"
  using assms
  by (auto simp: create_service_def Let_def missing_response_def split: json.splits)

lemma create_service_outcome_independent:
  "fst (create_service rnd clock send_ok body st) = fst (create_service rnd clock send_ok' body st)"
  by (simp add: create_service_def Let_def split: json.splits option.splits)

text \<open>
  Claim C7. A broadcast calls \<^verbatim>\<open>send\<close> once for every connection of the snapshot, in
  the snapshot's order, whatever the outcome of the earlier calls; it keeps exactly the
  connections whose send returned, and touches nothing else. So a connection whose send
  raised is no longer registered, every other connection still is and its message was
  delivered, and the next broadcast calls \<^verbatim>\<open>send\<close> only on the connections that were
  kept. The answer of \<^verbatim>\<open>create_service\<close> does not depend on the outcome of any send.
\<close>

theorem broadcast_fault_isolation:
  "broadcast send_ok event st =
     st\<lparr>ws_clients := filter send_ok (ws_clients st),
        sends := sends st @
          map (\<lambda>ws. (ws, dumps False '', '' '': '' event, send_ok ws)) (ws_clients st)\<rparr> \<and>
   (\<forall>ws. \<not> send_ok ws \<longrightarrow> ws \<notin> set (ws_clients (broadcast send_ok event st))) \<and>
   (\<forall>ws. ws \<in> set (ws_clients st) \<and> send_ok ws \<longrightarrow>
      ws \<in> set (ws_clients (broadcast send_ok event st)) \<and>
      (ws, dumps False '', '' '': '' event, True) \<in> set (sends (broadcast send_ok event st))) \<and>
   sends (broadcast send_ok' event' (broadcast send_ok event st)) =
     sends (broadcast send_ok event st) @
       map (\<lambda>ws. (ws, dumps False '', '' '': '' event', send_ok' ws))
         (filter send_ok (ws_clients st)) \<and>
   fst (create_service rnd clock send_ok body st) =
     fst (create_service rnd clock (\<lambda>ws. True) body st)"
proof (intro conjI allI impI)
  show "broadcast send_ok event st =
     st\<lparr>ws_clients := filter send_ok (ws_clients st),
        sends := sends st @
          map (\<lambda>ws. (ws, dumps False '', '' '': '' event, send_ok ws)) (ws_clients st)\<rparr>"
    by (rule broadcast_eq)
next
  fix ws assume "\<not> send_ok ws"
  then show "ws \<notin> set (ws_clients (broadcast send_ok event st))"
    by (simp add: broadcast_eq)
next
  fix ws assume "ws \<in> set (ws_clients st) \<and> send_ok ws"
  then show "ws \<in> set (ws_clients (broadcast send_ok event st))"
    by (simp add: broadcast_eq)
next
  fix ws assume "ws \<in> set (ws_clients st) \<and> send_ok ws"
  then show "(ws, dumps False '', '' '': '' event, True) \<in> set (sends (broadcast send_ok event st))"
    by (force simp: broadcast_eq)
next
  show "sends (broadcast send_ok' event' (broadcast send_ok event st)) =
     sends (broadcast send_ok event st) @
       map (\<lambda>ws. (ws, dumps False '', '' '': '' event', send_ok' ws))
         (filter send_ok (ws_clients st))"
    by (simp add: broadcast_eq)
next
  show "fst (create_service rnd clock send_ok body st) =
     fst (create_service rnd clock (\<lambda>ws. True) body st)"
    by (rule create_service_outcome_independent)
qed

theorem broadcast_fault_isolation_witness:
  "\<not> second_closed 2 \<and> 1 \<in> set (ws_clients example_clients) \<and> second_closed 1 \<and>
   3 \<in> set (ws_clients example_clients) \<and> second_closed 3 \<and>
   ws_clients (broadcast second_closed example_event example_clients) = [1, 3] \<and>
   sends (broadcast second_closed example_event example_clients) =
     [(1, dumps False '', '' '': '' example_event, True),
      (2, dumps False '', '' '': '' example_event, False),
      (3, dumps False '', '' '': '' example_event, True)] \<and>
   sends (broadcast (\<lambda>ws. True) example_event
            (broadcast second_closed example_event example_clients)) =
     [(1, dumps False '', '' '': '' example_event, True),
      (2, dumps False '', '' '': '' example_event, False),
      (3, dumps False '', '' '': '' example_event, True),
      (1, dumps False '', '' '': '' example_event, True),
      (3, dumps False '', '' '': '' example_event, True)]"
proof -
  note t = broadcast_fault_isolation[of second_closed example_event example_clients
             "\<lambda>ws. True" example_event 0 "[]" None]
  have c: "ws_clients example_clients = [1, 2, 3]" "sends example_clients = []"
    by (simp_all add: example_clients_def)
  have e: "broadcast second_closed example_event example_clients =
     example_clients\<lparr>ws_clients := filter second_closed (ws_clients example_clients),
        sends := sends example_clients @
          map (\<lambda>ws. (ws, dumps False '', '' '': '' example_event, second_closed ws))
            (ws_clients example_clients)\<rparr>"
    using t by (rule conjunct1)
  have s: "sends (broadcast (\<lambda>ws. True) example_event
            (broadcast second_closed example_event example_clients)) =
     sends (broadcast second_closed example_event example_clients) @
       map (\<lambda>ws. (ws, dumps False '', '' '': '' example_event, True))
         (filter second_closed (ws_clients example_clients))"
    using t by blast
  show ?thesis
    unfolding s unfolding e by (simp add: c second_closed_def)
qed

subsection \<open>Events\<close>

text \<open>
  Claim C8. Replace, patch and delete call \<^verbatim>\<open>send\<close> on no connection and leave the set of
  connections as it is, whatever their outcome. A create that answers 201 sends the
  \<open>serviceCreated\<close> event, carrying the record it stored and answered with, to every
  registered connection; a create with any other outcome leaves the whole state as it is.
\<close>

theorem creation_only_event_wiring:
  "sends (snd (put_service sid clock body st)) = sends st \<and>
   ws_clients (snd (put_service sid clock body st)) = ws_clients st \<and>
   sends (snd (patch_service sid clock body st)) = sends st \<and>
   ws_clients (snd (patch_service sid clock body st)) = ws_clients st \<and>
   sends (snd (delete_service sid st)) = sends st \<and>
   ws_clients (snd (delete_service sid st)) = ws_clients st \<and>
   ((\<exists>r. fst (create_service rnd clock send_ok body st) = Inr r \<and> status r = 201) \<longrightarrow>
      (\<exists>service.
         fst (create_service rnd clock send_ok body st) =
           Inr \<lparr>status = 201, payload = Json (JObj service),
                headers = [(''Location'', ''/api/v1/services/'' @ uuid_str (uuid4 rnd))]\<rparr> \<and>
         dict_get (services (snd (create_service rnd clock send_ok body st))) (uuid_str (uuid4 rnd)) =
           Some service \<and>
         sends (snd (create_service rnd clock send_ok body st)) =
           sends st @
             map (\<lambda>ws. (ws,
                         dumps False '', '' '': ''
                           (JObj [(''event'', JStr ''serviceCreated''), (''service'', JObj service)]),
                         send_ok ws))
               (ws_clients st))) \<and>
   (\<not> (\<exists>r. fst (create_service rnd clock send_ok body st) = Inr r \<and> status r = 201) \<longrightarrow>
      snd (create_service rnd clock send_ok body st) = st)"
proof -
  have put: "sends (snd (put_service sid clock body st)) = sends st \<and>
      ws_clients (snd (put_service sid clock body st)) = ws_clients st"
    by (simp add: put_service_def Let_def split: option.splits json.splits)
  have patch: "sends (snd (patch_service sid clock body st)) = sends st \<and>
      ws_clients (snd (patch_service sid clock body st)) = ws_clients st"
    by (simp add: patch_service_def Let_def split: option.splits prod.splits)
  have del: "sends (snd (delete_service sid st)) = sends st \<and>
      ws_clients (snd (delete_service sid st)) = ws_clients st"
    by (simp add: delete_service_def)
  have created: "\<exists>service.
         fst (create_service rnd clock send_ok body st) =
           Inr \<lparr>status = 201, payload = Json (JObj service),
                headers = [(''Location'', ''/api/v1/services/'' @ uuid_str (uuid4 rnd))]\<rparr> \<and>
         dict_get (services (snd (create_service rnd clock send_ok body st))) (uuid_str (uuid4 rnd)) =
           Some service \<and>
         sends (snd (create_service rnd clock send_ok body st)) =
           sends st @
             map (\<lambda>ws. (ws,
                         dumps False '', '' '': ''
                           (JObj [(''event'', JStr ''serviceCreated''), (''service'', JObj service)]),
                         send_ok ws))
               (ws_clients st)"
    if "\<exists>r. fst (create_service rnd clock send_ok body st) = Inr r \<and> status r = 201"
  proof -
    have "\<exists>data. request_data body = JObj data \<and> missing_fields data = []"
      using that create_service_not_created(2)[of body rnd clock send_ok st] by blast
    then obtain data ty nm ad where
      d: "request_data body = JObj data"
         "dict_get data ''type'' = Some ty" "truthy ty"
         "dict_get data ''name'' = Some nm" "truthy nm"
         "dict_get data ''address'' = Some ad" "truthy ad"
      unfolding missing_fields_Nil by blast
    define service where "service =
      [(''id'', JStr (uuid_str (uuid4 rnd))), (''type'', ty), (''name'', nm), (''address'', ad),
       (''hours'', dict_get_default data ''hours'' (JStr '''')),
       (''phone'', dict_get_default data ''phone'' (JStr '''')),
       (''updatedAt'', JStr clock)]"
    note c = create_service_created[OF d service_def, of send_ok st]
    show ?thesis
      by (rule exI[of _ service]) (simp add: c broadcast_eq dict_get_set)
  qed
  have not_created: "snd (create_service rnd clock send_ok body st) = st"
    if "\<not> (\<exists>r. fst (create_service rnd clock send_ok body st) = Inr r \<and> status r = 201)"
  proof (cases "\<exists>data. request_data body = JObj data \<and> missing_fields data = []")
    case True
    then obtain data ty nm ad where
      d: "request_data body = JObj data"
         "dict_get data ''type'' = Some ty" "truthy ty"
         "dict_get data ''name'' = Some nm" "truthy nm"
         "dict_get data ''address'' = Some ad" "truthy ad"
      unfolding missing_fields_Nil by blast
    from create_service_created[OF d refl, of rnd clock send_ok st] that
    show ?thesis by simp
  next
    case False
    then show ?thesis by (rule create_service_not_created(1))
  qed
  show ?thesis
    using put patch del created not_created by blast
qed

lemma uuid_str_zero: "uuid_str (uuid4 0) = ''00000000-0000-4000-8000-000000000000''"
  by code_simp

lemma create_example:
  "create_service 0 ''2024-01-01T00:00:00+00:00'' send_ok (Some (JObj example_fields)) st =
     (Inr \<lparr>status = 201, payload = Json (JObj example_service),
           headers = [(''Location'', ''/api/v1/services/00000000-0000-4000-8000-000000000000'')]\<rparr>,
      broadcast send_ok example_event
        (st\<lparr>services := dict_set (services st) ''00000000-0000-4000-8000-000000000000'' example_service\<rparr>))"
proof -
  have "create_service 0 ''2024-01-01T00:00:00+00:00'' send_ok (Some (JObj example_fields)) st =
     (Inr \<lparr>status = 201, payload = Json (JObj example_service),
           headers = [(''Location'', ''/api/v1/services/'' @ uuid_str (uuid4 0))]\<rparr>,
      broadcast send_ok (JObj [(''event'', JStr ''serviceCreated''), (''service'', JObj example_service)])
        (st\<lparr>services := dict_set (services st) (uuid_str (uuid4 0)) example_service\<rparr>))"
    by (rule create_service_created[where data = example_fields])
       (simp_all add: request_data_def example_fields_def example_service_def
          dict_get_default_def uuid_str_zero)
  then show ?thesis by (simp add: uuid_str_zero example_event_def)
qed

theorem creation_only_event_wiring_witness:
  "(\<exists>r. fst (create_service 0 ''2024-01-01T00:00:00+00:00'' second_closed
             (Some (JObj example_fields)) example_clients) = Inr r \<and> status r = 201) \<and>
   sends (snd (create_service 0 ''2024-01-01T00:00:00+00:00'' second_closed
             (Some (JObj example_fields)) example_clients)) =
     [(1, dumps False '', '' '': '' example_event, True),
      (2, dumps False '', '' '': '' example_event, False),
      (3, dumps False '', '' '': '' example_event, True)] \<and>
   \<not> (\<exists>r. fst (create_service 0 ''2024-01-01T00:00:00+00:00'' second_closed
             (Some (JObj nameless_fields)) example_clients) = Inr r \<and> status r = 201) \<and>
   snd (create_service 0 ''2024-01-01T00:00:00+00:00'' second_closed
             (Some (JObj nameless_fields)) example_clients) = example_clients \<and>
   sends (snd (put_service ''00000000-0000-4000-8000-000000000000'' ''2024-01-03T00:00:00+00:00''
             (Some (JObj example_fields)) example_state)) = []"
proof -
  let ?clk = "''2024-01-01T00:00:00+00:00''"
  let ?ok = "create_service 0 ?clk second_closed (Some (JObj example_fields)) example_clients"
  let ?bad = "create_service 0 ?clk second_closed (Some (JObj nameless_fields)) example_clients"
  have f: "fst ?ok = Inr \<lparr>status = 201, payload = Json (JObj example_service),
           headers = [(''Location'', ''/api/v1/services/00000000-0000-4000-8000-000000000000'')]\<rparr>"
    by (simp add: create_example)
  then have h1: "\<exists>r. fst ?ok = Inr r \<and> status r = 201" by simp
  note t1 = creation_only_event_wiring[where rnd = 0 and clock = ?clk and send_ok = second_closed
              and body = "Some (JObj example_fields)" and st = example_clients]
  from t1 h1 obtain service where
    s: "fst ?ok = Inr \<lparr>status = 201, payload = Json (JObj service),
                headers = [(''Location'', ''/api/v1/services/'' @ uuid_str (uuid4 0))]\<rparr>"
       "sends (snd ?ok) = sends example_clients @
             map (\<lambda>ws. (ws,
                         dumps False '', '' '': ''
                           (JObj [(''event'', JStr ''serviceCreated''), (''service'', JObj service)]),
                         second_closed ws))
               (ws_clients example_clients)"
    by blast
  from s(1) f have "service = example_service" by simp
  with s(2) have h2: "sends (snd ?ok) =
     [(1, dumps False '', '' '': '' example_event, True),
      (2, dumps False '', '' '': '' example_event, False),
      (3, dumps False '', '' '': '' example_event, True)]"
    by (simp add: example_clients_def example_event_def second_closed_def)
  have b: "fst ?bad = Inr (missing_response [''name''])"
    by (simp add: create_service_def request_data_def nameless_fields_def missing_fields_def
          required_def)
  have h3: "\<not> (\<exists>r. fst ?bad = Inr r \<and> status r = 201)"
    by (simp add: b missing_response_def)
  note t2 = creation_only_event_wiring[where rnd = 0 and clock = ?clk and send_ok = second_closed
              and body = "Some (JObj nameless_fields)" and st = example_clients]
  from t2 h3 have h4: "snd ?bad = example_clients" by blast
  note t3 = creation_only_event_wiring[where sid = "''00000000-0000-4000-8000-000000000000''"
              and clock = "''2024-01-03T00:00:00+00:00''" and body = "Some (JObj example_fields)"
              and st = example_state]
  from t3 have h5: "sends (snd (put_service ''00000000-0000-4000-8000-000000000000''
             ''2024-01-03T00:00:00+00:00'' (Some (JObj example_fields)) example_state)) = []"
    by (simp add: example_state_def)
  show ?thesis using h1 h2 h3 h4 h5 by blast
qed

subsection \<open>Replace\<close>

lemma get_service_stored:
  assumes "dict_get (services st) sid = Some service" and "service \<noteq> []"
  shows "get_service sid None st =
     \<lparr>status = 200, payload = Json (JObj service),
      headers = [(''ETag'', compute_etag service),
                 (''Cache-Control'', ''private, max-age=0, must-revalidate'')]\<rparr>"
  using assms by (simp add: get_service_def cache_control_def Let_def)

text \<open>
  Claim C4. On an unknown identifier replace answers 404 and leaves the state as it is,
  whatever the body. On a stored identifier, with request data that is a dict: when a
  required field is absent or empty replace answers 400 and leaves the state as it is;
  otherwise it answers 200 with the record whose \<open>type\<close>, \<open>name\<close>, \<open>address\<close> are the
  input's, whose \<open>hours\<close> and \<open>phone\<close> are the input's or the empty string when omitted,
  whose \<open>updatedAt\<close> is the clock reading and whose other fields are as before; the
  record is stored, the other records are untouched, and a read that follows answers
  200 with exactly this record.
\<close>

theorem put_service_replace:
  "(dict_get (services st) sid = None \<longrightarrow> put_service sid clock body st = (Inr not_found, st)) \<and>
   (\<forall>service data.
      dict_get (services st) sid = Some service \<and> request_data body = JObj data \<longrightarrow>
      (missing_fields data \<noteq> [] \<longrightarrow>
         put_service sid clock body st = (Inr (missing_response (missing_fields data)), st)) \<and>
      (missing_fields data = [] \<longrightarrow>
         (\<exists>service'.
            put_service sid clock body st =
              (Inr \<lparr>status = 200, payload = Json (JObj service'), headers = []\<rparr>,
               st\<lparr>services := dict_set (services st) sid service'\<rparr>) \<and>
            (\<forall>k. dict_get service' k =
               (if k = ''type'' then dict_get data ''type''
                else if k = ''name'' then dict_get data ''name''
                else if k = ''address'' then dict_get data ''address''
                else if k = ''hours''
                  then Some (case dict_get data ''hours'' of None \<Rightarrow> JStr '''' | Some v \<Rightarrow> v)
                else if k = ''phone''
                  then Some (case dict_get data ''phone'' of None \<Rightarrow> JStr '''' | Some v \<Rightarrow> v)
                else if k = ''updatedAt'' then Some (JStr clock)
                else dict_get service k)) \<and>
            (\<forall>sid'. sid' \<noteq> sid \<longrightarrow>
               dict_get (dict_set (services st) sid service') sid' = dict_get (services st) sid') \<and>
            get_service sid None (st\<lparr>services := dict_set (services st) sid service'\<rparr>) =
              \<lparr>status = 200, payload = Json (JObj service'),
               headers = [(''ETag'', compute_etag service'),
                          (''Cache-Control'', ''private, max-age=0, must-revalidate'')]\<rparr>)))"
proof (intro conjI allI impI)
  assume "dict_get (services st) sid = None"
  then show "put_service sid clock body st = (Inr not_found, st)"
    by (simp add: put_service_def)
next
  fix service data
  assume a: "dict_get (services st) sid = Some service \<and> request_data body = JObj data"
    and m: "missing_fields data \<noteq> []"
  then show "put_service sid clock body st = (Inr (missing_response (missing_fields data)), st)"
    by (simp add: put_service_def Let_def)
next
  fix service data
  assume a: "dict_get (services st) sid = Some service \<and> request_data body = JObj data"
    and m: "missing_fields data = []"
  from m obtain ty nm ad where
    f: "dict_get data ''type'' = Some ty" "dict_get data ''name'' = Some nm"
       "dict_get data ''address'' = Some ad"
    unfolding missing_fields_Nil by blast
  define service' where "service' =
    dict_set (dict_set (dict_set (dict_set (dict_set (dict_set service
      ''type'' ty) ''name'' nm) ''address'' ad)
      ''hours'' (dict_get_default data ''hours'' (JStr '''')))
      ''phone'' (dict_get_default data ''phone'' (JStr '''')))
      ''updatedAt'' (JStr clock)"
  have r: "put_service sid clock body st =
              (Inr \<lparr>status = 200, payload = Json (JObj service'), headers = []\<rparr>,
               st\<lparr>services := dict_set (services st) sid service'\<rparr>)"
    using a m f by (simp add: put_service_def Let_def service'_def now_iso_def)
  have g: "\<forall>k. dict_get service' k =
               (if k = ''type'' then dict_get data ''type''
                else if k = ''name'' then dict_get data ''name''
                else if k = ''address'' then dict_get data ''address''
                else if k = ''hours''
                  then Some (case dict_get data ''hours'' of None \<Rightarrow> JStr '''' | Some v \<Rightarrow> v)
                else if k = ''phone''
                  then Some (case dict_get data ''phone'' of None \<Rightarrow> JStr '''' | Some v \<Rightarrow> v)
                else if k = ''updatedAt'' then Some (JStr clock)
                else dict_get service k)"
    using f by (simp add: service'_def dict_get_set dict_get_default_def)
  have o: "\<forall>sid'. sid' \<noteq> sid \<longrightarrow>
               dict_get (dict_set (services st) sid service') sid' = dict_get (services st) sid'"
    by (simp add: dict_get_set)
  have ne: "service' \<noteq> []"
    by (simp add: service'_def dict_set_nonempty)
  have rd: "get_service sid None (st\<lparr>services := dict_set (services st) sid service'\<rparr>) =
              \<lparr>status = 200, payload = Json (JObj service'),
               headers = [(''ETag'', compute_etag service'),
                          (''Cache-Control'', ''private, max-age=0, must-revalidate'')]\<rparr>"
    by (rule get_service_stored) (simp_all add: dict_get_set ne)
  show "\<exists>service'.
            put_service sid clock body st =
              (Inr \<lparr>status = 200, payload = Json (JObj service'), headers = []\<rparr>,
               st\<lparr>services := dict_set (services st) sid service'\<rparr>) \<and>
            (\<forall>k. dict_get service' k =
               (if k = ''type'' then dict_get data ''type''
                else if k = ''name'' then dict_get data ''name''
                else if k = ''address'' then dict_get data ''address''
                else if k = ''hours''
                  then Some (case dict_get data ''hours'' of None \<Rightarrow> JStr '''' | Some v \<Rightarrow> v)
                else if k = ''phone''
                  then Some (case dict_get data ''phone'' of None \<Rightarrow> JStr '''' | Some v \<Rightarrow> v)
                else if k = ''updatedAt'' then Some (JStr clock)
                else dict_get service k)) \<and>
            (\<forall>sid'. sid' \<noteq> sid \<longrightarrow>
               dict_get (dict_set (services st) sid service') sid' = dict_get (services st) sid') \<and>
            get_service sid None (st\<lparr>services := dict_set (services st) sid service'\<rparr>) =
              \<lparr>status = 200, payload = Json (JObj service'),
               headers = [(''ETag'', compute_etag service'),
                          (''Cache-Control'', ''private, max-age=0, must-revalidate'')]\<rparr>"
    by (rule exI[of _ service']) (intro conjI r g o rd)
qed

theorem put_service_replace_witness:
  "dict_get (services init_state) ''unknown'' = None \<and>
   put_service ''unknown'' ''2024-01-03T00:00:00+00:00'' None init_state = (Inr not_found, init_state) \<and>
   dict_get (services example_state2) ''ffffffff-ffff-4fff-bfff-ffffffffffff'' = Some example_shelter \<and>
   request_data (Some (JObj example_fields)) = JObj example_fields \<and>
   missing_fields example_fields = [] \<and>
   request_data (Some (JObj nameless_fields)) = JObj nameless_fields \<and>
   missing_fields nameless_fields \<noteq> [] \<and>
   put_service ''ffffffff-ffff-4fff-bfff-ffffffffffff'' ''2024-01-03T00:00:00+00:00''
       (Some (JObj nameless_fields)) example_state2 =
     (Inr (missing_response (missing_fields nameless_fields)), example_state2) \<and>
   (\<exists>service'.
      put_service ''ffffffff-ffff-4fff-bfff-ffffffffffff'' ''2024-01-03T00:00:00+00:00''
          (Some (JObj example_fields)) example_state2 =
        (Inr \<lparr>status = 200, payload = Json (JObj service'), headers = []\<rparr>,
         example_state2\<lparr>services :=
           dict_set (services example_state2) ''ffffffff-ffff-4fff-bfff-ffffffffffff'' service'\<rparr>) \<and>
      dict_get service' ''id'' = Some (JStr ''ffffffff-ffff-4fff-bfff-ffffffffffff'') \<and>
      dict_get service' ''type'' = Some (JStr ''clinic'') \<and>
      dict_get service' ''name'' = Some (JStr ''Hope Clinic'') \<and>
      dict_get service' ''address'' = Some (JStr ''1 Main St'') \<and>
      dict_get service' ''hours'' = Some (JStr '''') \<and>
      dict_get service' ''phone'' = Some (JStr '''') \<and>
      dict_get service' ''updatedAt'' = Some (JStr ''2024-01-03T00:00:00+00:00'') \<and>
      get_service ''ffffffff-ffff-4fff-bfff-ffffffffffff'' None
          (example_state2\<lparr>services :=
             dict_set (services example_state2) ''ffffffff-ffff-4fff-bfff-ffffffffffff'' service'\<rparr>) =
        \<lparr>status = 200, payload = Json (JObj service'),
         headers = [(''ETag'', compute_etag service'),
                    (''Cache-Control'', ''private, max-age=0, must-revalidate'')]\<rparr>)"
proof -
  let ?sid = "''ffffffff-ffff-4fff-bfff-ffffffffffff''"
  let ?clk = "''2024-01-03T00:00:00+00:00''"
  have u: "dict_get (services init_state) ''unknown'' = None"
    by (simp add: init_state_def)
  have u': "put_service ''unknown'' ?clk None init_state = (Inr not_found, init_state)"
    using put_service_replace[of init_state "''unknown''" ?clk None] u by blast
  have s: "dict_get (services example_state2) ?sid = Some example_shelter"
    by (simp add: example_state2_def)
  have d: "request_data (Some (JObj example_fields)) = JObj example_fields"
    by (simp add: request_data_def example_fields_def)
  have m: "missing_fields example_fields = []"
    by (simp add: missing_fields_def required_def example_fields_def)
  have d': "request_data (Some (JObj nameless_fields)) = JObj nameless_fields"
    by (simp add: request_data_def nameless_fields_def)
  have m': "missing_fields nameless_fields \<noteq> []"
    by (simp add: missing_fields_def required_def nameless_fields_def)
  have bad: "put_service ?sid ?clk (Some (JObj nameless_fields)) example_state2 =
     (Inr (missing_response (missing_fields nameless_fields)), example_state2)"
    using put_service_replace[of example_state2 ?sid ?clk "Some (JObj nameless_fields)"] s d' m'
    by blast
  from put_service_replace[of example_state2 ?sid ?clk "Some (JObj example_fields)"] s d m
  obtain service' where
    c: "put_service ?sid ?clk (Some (JObj example_fields)) example_state2 =
        (Inr \<lparr>status = 200, payload = Json (JObj service'), headers = []\<rparr>,
         example_state2\<lparr>services := dict_set (services example_state2) ?sid service'\<rparr>)"
       "\<forall>k. dict_get service' k =
               (if k = ''type'' then dict_get example_fields ''type''
                else if k = ''name'' then dict_get example_fields ''name''
                else if k = ''address'' then dict_get example_fields ''address''
                else if k = ''hours''
                  then Some (case dict_get example_fields ''hours'' of None \<Rightarrow> JStr '''' | Some v \<Rightarrow> v)
                else if k = ''phone''
                  then Some (case dict_get example_fields ''phone'' of None \<Rightarrow> JStr '''' | Some v \<Rightarrow> v)
                else if k = ''updatedAt'' then Some (JStr ?clk)
                else dict_get example_shelter k)"
       "get_service ?sid None
          (example_state2\<lparr>services := dict_set (services example_state2) ?sid service'\<rparr>) =
        \<lparr>status = 200, payload = Json (JObj service'),
         headers = [(''ETag'', compute_etag service'),
                    (''Cache-Control'', ''private, max-age=0, must-revalidate'')]\<rparr>"
    by blast
  have f: "dict_get service' ''id'' = Some (JStr ?sid)"
    "dict_get service' ''type'' = Some (JStr ''clinic'')"
    "dict_get service' ''name'' = Some (JStr ''Hope Clinic'')"
    "dict_get service' ''address'' = Some (JStr ''1 Main St'')"
    "dict_get service' ''hours'' = Some (JStr '''')"
    "dict_get service' ''phone'' = Some (JStr '''')"
    "dict_get service' ''updatedAt'' = Some (JStr ?clk)"
    by (simp_all add: c(2) example_fields_def example_shelter_def)
  have e: "\<exists>service'.
      put_service ?sid ?clk (Some (JObj example_fields)) example_state2 =
        (Inr \<lparr>status = 200, payload = Json (JObj service'), headers = []\<rparr>,
         example_state2\<lparr>services := dict_set (services example_state2) ?sid service'\<rparr>) \<and>
      dict_get service' ''id'' = Some (JStr ?sid) \<and>
      dict_get service' ''type'' = Some (JStr ''clinic'') \<and>
      dict_get service' ''name'' = Some (JStr ''Hope Clinic'') \<and>
      dict_get service' ''address'' = Some (JStr ''1 Main St'') \<and>
      dict_get service' ''hours'' = Some (JStr '''') \<and>
      dict_get service' ''phone'' = Some (JStr '''') \<and>
      dict_get service' ''updatedAt'' = Some (JStr ?clk) \<and>
      get_service ?sid None
          (example_state2\<lparr>services := dict_set (services example_state2) ?sid service'\<rparr>) =
        \<lparr>status = 200, payload = Json (JObj service'),
         headers = [(''ETag'', compute_etag service'),
                    (''Cache-Control'', ''private, max-age=0, must-revalidate'')]\<rparr>"
    by (rule exI[of _ service']) (intro conjI c(1) c(3) f)
  show ?thesis
    by (intro conjI u u' s d m d' m' bad e)
qed

subsection \<open>Patch\<close>

lemma patch_fields_dict:
  "\<exists>service'. patch_fields (JObj data) ks service = (None, service') \<and>
     (\<forall>k. dict_get service' k =
        (if k \<in> set ks \<and> dict_get data k \<noteq> None then dict_get data k else dict_get service k))"
proof (induction ks arbitrary: service)
  case Nil
  then show ?case by simp
next
  case (Cons a ks)
  show ?case
  proof (cases "dict_get data a")
    case None
    with Cons[of service] show ?thesis
      by (auto simp: dict_has_def)
  next
    case (Some v)
    from Cons[of "dict_set service a v"] obtain service' where
      s: "patch_fields (JObj data) ks (dict_set service a v) = (None, service')"
         "\<forall>k. dict_get service' k =
           (if k \<in> set ks \<and> dict_get data k \<noteq> None then dict_get data k
            else dict_get (dict_set service a v) k)"
      by blast
    have "patch_fields (JObj data) (a # ks) service = (None, service')"
      using Some s(1) by (simp add: dict_has_def)
    moreover have "\<forall>k. dict_get service' k =
        (if k \<in> set (a # ks) \<and> dict_get data k \<noteq> None then dict_get data k else dict_get service k)"
      using Some s(2) by (auto simp: dict_get_set)
    ultimately show ?thesis by blast
  qed
qed

lemma patch_fields_other:
  assumes "\<forall>d. data \<noteq> JObj d"
  shows "snd (patch_fields data ks service) = service"
  using assms
  by (induction ks arbitrary: service) (auto split: sum.splits elim: py_getitem.elims)



lemma patch_fields_get:
  "dict_get (snd (patch_fields data ks service)) k = dict_get service k \<or>
   (\<exists>d. data = JObj d \<and> k \<in> set ks \<and> dict_get d k \<noteq> None \<and>
        dict_get (snd (patch_fields data ks service)) k = dict_get d k)"
proof (cases "\<exists>d. data = JObj d")
  case True
  then obtain d where d: "data = JObj d" by blast
  from patch_fields_dict[of d ks service] obtain s1 where
    "patch_fields (JObj d) ks service = (None, s1)"
    "\<forall>k. dict_get s1 k =
        (if k \<in> set ks \<and> dict_get d k \<noteq> None then dict_get d k else dict_get service k)"
    by blast
  then show ?thesis using d by auto
next
  case False
  then show ?thesis by (simp add: patch_fields_other)
qed

text \<open>
  Claim C2, as the code has it. Patch checks nothing: a value it is given for \<open>type\<close>,
  \<open>name\<close> or \<open>address\<close> is stored, empty or not. What holds is that patch never removes
  a field of a stored record, whatever the body, and that the three required fields of
  the record stay non-empty when they were and the input gives no empty value for any of
  them.
\<close>

theorem patch_service_required_fields:
  assumes "dict_get (services st) sid = Some service"
  shows "\<exists>service'.
     dict_get (services (snd (patch_service sid clock body st))) sid = Some service' \<and>
     (\<forall>k. dict_get service k \<noteq> None \<longrightarrow> dict_get service' k \<noteq> None) \<and>
     ((\<forall>k \<in> set required. \<exists>v. dict_get service k = Some v \<and> truthy v) \<and>
      (\<forall>data. request_data body = JObj data \<longrightarrow>
         (\<forall>k \<in> set required. \<forall>v. dict_get data k = Some v \<longrightarrow> truthy v)) \<longrightarrow>
      (\<forall>k \<in> set required. \<exists>v. dict_get service' k = Some v \<and> truthy v))"
proof (cases "service = []")
  case True
  then have "snd (patch_service sid clock body st) = st"
    using assms by (simp add: patch_service_def)
  then show ?thesis using assms by auto
next
  case False
  obtain e s1 where pf: "patch_fields (request_data body) patchable service = (e, s1)"
    by (cases "patch_fields (request_data body) patchable service") blast
  have s1: "dict_get s1 k = dict_get service k \<or>
     (\<exists>d. request_data body = JObj d \<and> k \<in> set patchable \<and> dict_get d k \<noteq> None \<and>
          dict_get s1 k = dict_get d k)" for k
    using patch_fields_get[of "request_data body" patchable service k] pf by simp
  define service' where
    "service' = (case e of None \<Rightarrow> dict_set s1 ''updatedAt'' (JStr clock) | Some x \<Rightarrow> s1)"
  have st: "dict_get (services (snd (patch_service sid clock body st))) sid = Some service'"
    using assms False pf
    by (simp add: patch_service_def Let_def service'_def now_iso_def dict_get_set
          split: option.splits)
  have g: "dict_get service' k = dict_get s1 k \<or> (k = ''updatedAt'' \<and> dict_get service' k = Some (JStr clock))" for k
    by (simp add: service'_def dict_get_set split: option.splits)
  have keep: "\<forall>k. dict_get service k \<noteq> None \<longrightarrow> dict_get service' k \<noteq> None"
    using g s1 by (metis option.distinct(1))
  have req: "\<forall>k \<in> set required. \<exists>v. dict_get service' k = Some v \<and> truthy v"
    if a: "\<forall>k \<in> set required. \<exists>v. dict_get service k = Some v \<and> truthy v"
      and b: "\<forall>data. request_data body = JObj data \<longrightarrow>
         (\<forall>k \<in> set required. \<forall>v. dict_get data k = Some v \<longrightarrow> truthy v)"
  proof
    fix k assume k: "k \<in> set required"
    then have "k \<noteq> ''updatedAt''" by (auto simp: required_def)
    with g[of k] have e1: "dict_get service' k = dict_get s1 k" by simp
    from s1[of k] show "\<exists>v. dict_get service' k = Some v \<and> truthy v"
    proof
      assume "dict_get s1 k = dict_get service k"
      with e1 a k show ?thesis by simp
    next
      assume "\<exists>d. request_data body = JObj d \<and> k \<in> set patchable \<and> dict_get d k \<noteq> None \<and>
          dict_get s1 k = dict_get d k"
      then obtain d v where d: "request_data body = JObj d" "dict_get d k = Some v"
        "dict_get s1 k = dict_get d k" by auto
      with b k have "truthy v" by blast
      with d e1 show ?thesis by simp
    qed
  qed
  show ?thesis
    by (rule exI[of _ service']) (use st keep req in blast)
qed

text \<open>
  The claim as it was stated fails: a patch that gives the empty string for \<open>name\<close> is
  answered 200 and the record is stored with an empty name.
\<close>

theorem patch_service_empty_name_counterexample:
  "dict_get (services example_state) ''00000000-0000-4000-8000-000000000000'' = Some example_service \<and>
   dict_get example_service ''type'' = Some (JStr ''clinic'') \<and>
   dict_get example_service ''name'' = Some (JStr ''Hope Clinic'') \<and>
   dict_get example_service ''address'' = Some (JStr ''1 Main St'') \<and>
   patch_service ''00000000-0000-4000-8000-000000000000'' ''2024-01-03T00:00:00+00:00''
       (Some (JObj name_eraser)) example_state =
     (Inr \<lparr>status = 200, payload = Json (JObj erased_service), headers = []\<rparr>,
      \<lparr>services = [(''00000000-0000-4000-8000-000000000000'', erased_service)],
       ws_clients = [], sends = []\<rparr>) \<and>
   dict_get erased_service ''name'' = Some (JStr '''') \<and>
   \<not> truthy (JStr '''')"
  by (simp add: patch_service_def patchable_def request_data_def name_eraser_def
        erased_service_def example_state_def example_service_def dict_has_def now_iso_def Let_def)

theorem patch_service_required_fields_witness:
  "dict_get (services example_state) ''00000000-0000-4000-8000-000000000000'' = Some example_service \<and>
   dict_get example_service ''type'' = Some (JStr ''clinic'') \<and> truthy (JStr ''clinic'') \<and>
   dict_get example_service ''name'' = Some (JStr ''Hope Clinic'') \<and> truthy (JStr ''Hope Clinic'') \<and>
   dict_get example_service ''address'' = Some (JStr ''1 Main St'') \<and> truthy (JStr ''1 Main St'') \<and>
   request_data (Some (JObj rename_patch)) = JObj rename_patch \<and>
   dict_get rename_patch ''type'' = None \<and>
   dict_get rename_patch ''name'' = Some (JStr ''Hope Clinic West'') \<and> truthy (JStr ''Hope Clinic West'') \<and>
   dict_get rename_patch ''address'' = None \<and>
   (\<exists>service'.
      dict_get (services (snd (patch_service ''00000000-0000-4000-8000-000000000000''
          ''2024-01-03T00:00:00+00:00'' (Some (JObj rename_patch)) example_state)))
        ''00000000-0000-4000-8000-000000000000'' = Some service' \<and>
      (\<exists>v. dict_get service' ''type'' = Some v \<and> truthy v) \<and>
      (\<exists>v. dict_get service' ''name'' = Some v \<and> truthy v) \<and>
      (\<exists>v. dict_get service' ''address'' = Some v \<and> truthy v) \<and>
      dict_get service' ''id'' \<noteq> None)"
proof -
  let ?sid = "''00000000-0000-4000-8000-000000000000''"
  let ?clk = "''2024-01-03T00:00:00+00:00''"
  have h1: "dict_get (services example_state) ?sid = Some example_service"
    by (simp add: example_state_def)
  have h2: "dict_get example_service ''type'' = Some (JStr ''clinic'')" "truthy (JStr ''clinic'')"
    "dict_get example_service ''name'' = Some (JStr ''Hope Clinic'')" "truthy (JStr ''Hope Clinic'')"
    "dict_get example_service ''address'' = Some (JStr ''1 Main St'')" "truthy (JStr ''1 Main St'')"
    by (simp_all add: example_service_def)
  have h3: "request_data (Some (JObj rename_patch)) = JObj rename_patch"
    by (simp add: request_data_def rename_patch_def)
  have h4: "dict_get rename_patch ''type'' = None"
    "dict_get rename_patch ''name'' = Some (JStr ''Hope Clinic West'')"
    "truthy (JStr ''Hope Clinic West'')"
    "dict_get rename_patch ''address'' = None"
    by (simp_all add: rename_patch_def)
  have a: "\<forall>k \<in> set required. \<exists>v. dict_get example_service k = Some v \<and> truthy v"
    using h2 by (simp add: required_def)
  have b: "\<forall>data. request_data (Some (JObj rename_patch)) = JObj data \<longrightarrow>
         (\<forall>k \<in> set required. \<forall>v. dict_get data k = Some v \<longrightarrow> truthy v)"
    using h4 by (simp add: h3 required_def)
  have i: "dict_get example_service ''id'' \<noteq> None"
    by (simp add: example_service_def)
  from patch_service_required_fields[OF h1, of ?clk "Some (JObj rename_patch)"] a b
  obtain service' where
    c: "dict_get (services (snd (patch_service ?sid ?clk (Some (JObj rename_patch)) example_state)))
          ?sid = Some service'"
       "\<forall>k. dict_get example_service k \<noteq> None \<longrightarrow> dict_get service' k \<noteq> None"
       "\<forall>k \<in> set required. \<exists>v. dict_get service' k = Some v \<and> truthy v"
    by blast
  from c(3) have r: "\<exists>v. dict_get service' ''type'' = Some v \<and> truthy v"
    "\<exists>v. dict_get service' ''name'' = Some v \<and> truthy v"
    "\<exists>v. dict_get service' ''address'' = Some v \<and> truthy v"
    by (simp_all add: required_def)
  from c(2) i have k: "dict_get service' ''id'' \<noteq> None" by blast
  have e: "\<exists>service'.
      dict_get (services (snd (patch_service ?sid ?clk (Some (JObj rename_patch)) example_state)))
        ?sid = Some service' \<and>
      (\<exists>v. dict_get service' ''type'' = Some v \<and> truthy v) \<and>
      (\<exists>v. dict_get service' ''name'' = Some v \<and> truthy v) \<and>
      (\<exists>v. dict_get service' ''address'' = Some v \<and> truthy v) \<and>
      dict_get service' ''id'' \<noteq> None"
    by (rule exI[of _ service']) (intro conjI c(1) r k)
  show ?thesis by (intro conjI h1 h2 h3 h4 e)
qed

subsection \<open>Identifiers\<close>

lemma put_service_id:
  assumes "dict_get (services (snd (put_service sid clock body st))) k = Some svc'"
  shows "\<exists>svc. dict_get (services st) k = Some svc \<and> dict_get svc' ''id'' = dict_get svc ''id''"
  using assms
  by (auto simp: put_service_def Let_def dict_get_set
      split: option.splits json.splits if_splits)

lemma patch_fields_id: "dict_get (snd (patch_fields data patchable service)) ''id'' = dict_get service ''id''"
  using patch_fields_get[of data patchable service "''id''"]
  by (auto simp: patchable_def)

lemma patch_service_id:
  assumes "dict_get (services (snd (patch_service sid clock body st))) k = Some svc'"
  shows "\<exists>svc. dict_get (services st) k = Some svc \<and> dict_get svc' ''id'' = dict_get svc ''id''"
proof (cases "dict_get (services st) sid")
  case None
  then show ?thesis using assms by (simp add: patch_service_def)
next
  case (Some service)
  show ?thesis
  proof (cases "service = []")
    case True
    then show ?thesis using assms Some by (simp add: patch_service_def)
  next
    case False
    obtain e s1 where pf: "patch_fields (request_data body) patchable service = (e, s1)"
      by (cases "patch_fields (request_data body) patchable service") blast
    then have i: "dict_get s1 ''id'' = dict_get service ''id''"
      using patch_fields_id[of "request_data body" service] by simp
    show ?thesis
      using assms Some False pf i
      by (cases e) (auto simp: patch_service_def Let_def dict_get_set split: if_splits)
  qed
qed

lemma delete_service_id:
  assumes "dict_get (services (snd (delete_service sid st))) k = Some svc'"
  shows "\<exists>svc. dict_get (services st) k = Some svc \<and> dict_get svc' ''id'' = dict_get svc ''id''"
  using assms
  by (auto simp: delete_service_def dict_get_del split: if_splits)

lemma create_service_ids:
  assumes "ids_are_keys st"
  shows "ids_are_keys (snd (create_service rnd clock send_ok body st))"
proof (cases "\<exists>data. request_data body = JObj data \<and> missing_fields data = []")
  case True
  then obtain data ty nm ad where
    d: "request_data body = JObj data"
       "dict_get data ''type'' = Some ty" "truthy ty"
       "dict_get data ''name'' = Some nm" "truthy nm"
       "dict_get data ''address'' = Some ad" "truthy ad"
    unfolding missing_fields_Nil by blast
  show ?thesis
    using assms
    by (auto simp: create_service_created[OF d refl] ids_are_keys_def services_broadcast
          dict_get_set split: if_splits)
next
  case False
  then show ?thesis using assms by (simp add: create_service_not_created(1))
qed

lemma reachable_ids: "reachable st \<Longrightarrow> ids_are_keys st"
proof (induction rule: reachable.induct)
  case init
  then show ?case by (simp add: ids_are_keys_def init_state_def)
next
  case (create st rnd clock send_ok body)
  then show ?case by (simp add: create_service_ids)
next
  case (put st sid clock body)
  then show ?case unfolding ids_are_keys_def by (metis put_service_id)
next
  case (patch st sid clock body)
  then show ?case unfolding ids_are_keys_def by (metis patch_service_id)
next
  case (delete st sid)
  then show ?case unfolding ids_are_keys_def by (metis delete_service_id)
next
  case (ws_open st greeted ws)
  then show ?case by (simp add: ids_are_keys_def ws_open_def Let_def)
next
  case (ws_close st ws)
  then show ?case by (simp add: ids_are_keys_def ws_close_def)
qed

lemma reachable_record_nonempty:
  assumes "reachable st" and "dict_get (services st) sid = Some service"
  shows "service \<noteq> []"
proof -
  from reachable_ids[OF assms(1)] assms(2)
  have "dict_get service ''id'' = Some (JStr sid)"
    unfolding ids_are_keys_def by blast
  then show ?thesis by auto
qed

text \<open>
  Claim C10. In every state the program can be in, the \<open>id\<close> field of each stored record
  is the key it is stored under. From any state, every record in the registry after a
  replace, a patch or a delete was in the registry before, under the same key, with the
  same \<open>id\<close> field.
\<close>

theorem id_is_key_and_immutable:
  "(reachable st \<longrightarrow>
      (\<forall>k service. dict_get (services st) k = Some service \<longrightarrow>
         dict_get service ''id'' = Some (JStr k))) \<and>
   (\<forall>k svc'. dict_get (services (snd (put_service sid clock body st))) k = Some svc' \<longrightarrow>
      (\<exists>svc. dict_get (services st) k = Some svc \<and> dict_get svc' ''id'' = dict_get svc ''id'')) \<and>
   (\<forall>k svc'. dict_get (services (snd (patch_service sid clock body st))) k = Some svc' \<longrightarrow>
      (\<exists>svc. dict_get (services st) k = Some svc \<and> dict_get svc' ''id'' = dict_get svc ''id'')) \<and>
   (\<forall>k svc'. dict_get (services (snd (delete_service sid st))) k = Some svc' \<longrightarrow>
      (\<exists>svc. dict_get (services st) k = Some svc \<and> dict_get svc' ''id'' = dict_get svc ''id''))"
  using reachable_ids[of st] put_service_id[of sid clock body st]
    patch_service_id[of sid clock body st] delete_service_id[of sid st]
  unfolding ids_are_keys_def by blast

lemma reachable_example_state: "reachable example_state"
proof -
  have "snd (create_service 0 ''2024-01-01T00:00:00+00:00'' (\<lambda>ws. True)
               (Some (JObj example_fields)) init_state) = example_state"
    by (simp add: create_example broadcast_eq init_state_def example_state_def)
  then show ?thesis
    using reachable.create[OF reachable.init, of 0 "''2024-01-01T00:00:00+00:00''" "\<lambda>ws. True"
            "Some (JObj example_fields)"]
    by simp
qed

theorem id_is_key_and_immutable_witness:
  "reachable example_state \<and>
   dict_get (services example_state) ''00000000-0000-4000-8000-000000000000'' = Some example_service \<and>
   dict_get example_service ''id'' = Some (JStr ''00000000-0000-4000-8000-000000000000'') \<and>
   dict_get (services (snd (patch_service ''00000000-0000-4000-8000-000000000000''
       ''2024-01-03T00:00:00+00:00'' (Some (JObj name_eraser)) example_state)))
     ''00000000-0000-4000-8000-000000000000'' = Some erased_service \<and>
   dict_get erased_service ''id'' = dict_get example_service ''id''"
proof -
  let ?sid = "''00000000-0000-4000-8000-000000000000''"
  let ?clk = "''2024-01-03T00:00:00+00:00''"
  note t = id_is_key_and_immutable[of example_state ?sid ?clk "Some (JObj name_eraser)"]
  have h1: "reachable example_state" by (rule reachable_example_state)
  have h2: "dict_get (services example_state) ?sid = Some example_service"
    by (simp add: example_state_def)
  from t h1 h2 have h3: "dict_get example_service ''id'' = Some (JStr ?sid)"
    by blast
  have h4: "dict_get (services (snd (patch_service ?sid ?clk (Some (JObj name_eraser)) example_state)))
      ?sid = Some erased_service"
    by (simp add: patch_service_def patchable_def request_data_def name_eraser_def
        erased_service_def example_state_def example_service_def dict_has_def now_iso_def Let_def)
  from t h4 obtain svc where
    "dict_get (services example_state) ?sid = Some svc"
    "dict_get erased_service ''id'' = dict_get svc ''id''"
    by blast
  with h2 have h5: "dict_get erased_service ''id'' = dict_get example_service ''id''"
    by simp
  show ?thesis by (intro conjI h1 h2 h3 h4 h5)
qed

end
